theory Spec2Isabelle
  imports Complex_Main
begin

section \<open>Documents of the backing store\<close>

text \<open>
  The backend keeps two collections, users and orders. Identifiers (\<open>_id\<close>, session
  user ids, route parameters) are strings, and a point in time is the clock reading that
  produced it. Money and quantities are JavaScript numbers, read as rationals: sums and
  products are exact here, where the code rounds them to a double. A field that may be
  \<open>undefined\<close> or \<open>null\<close> is an option.
\<close>

type_synonym object_id = string

record date_time =
  epoch_ms :: nat
  year :: nat
  month :: nat
  day :: nat
  hours :: nat
  minutes :: nat
  seconds :: nat
  millis :: nat

record saved_card =
  last4 :: string
  brand :: string
  expiry :: string
  cardHolder :: string
  token :: string

record user =
  user_id :: object_id
  email :: string
  full_name :: string
  role :: string
  is_verified :: bool
  is_blocked :: bool
  blocked_reason :: "string option"
  blocked_at :: "date_time option"
  blocked_by :: "object_id option"
  phone :: string
  address :: "string \<rightharpoonup> string"
  savedCards :: "saved_card list"

text \<open>A cart item, as the frontend keeps it and as checkout submits it.\<close>

record cart_item =
  item_oid :: "string option"
  item_id :: "string option"
  name :: string
  description :: string
  image :: string
  selectedSize :: "string option"
  selectedCrust :: "string option"
  price :: rat
  quantity :: rat

record order_line =
  product_oid :: "string option"
  snapshot_name :: string
  snapshot_description :: string
  snapshot_image :: string
  line_quantity :: rat
  size :: "string option"
  crust :: "string option"
  unit_price :: rat
  total_price :: rat

text \<open>
  Customer checkout stores mapped lines; the admin manual entry stores the submitted
  items as they came.
\<close>

datatype order_items = Lines "order_line list" | Submitted "cart_item list"

record delivery_info =
  info_no :: string
  info_street :: string
  info_city :: string
  info_province :: string
  info_zipCode :: string
  info_address :: string
  info_contact1 :: string
  info_contact2 :: string

record address_doc =
  addr_no :: string
  addr_street :: string
  addr_city :: string
  addr_province :: string
  addr_zip_code :: string
  addr_contact1 :: string
  addr_contact2 :: string

datatype delivery_address_value = Structured address_doc | Plain string

record status_entry =
  entry_status :: string
  entry_timestamp :: date_time
  entry_note :: string

record order =
  order_oid :: object_id
  order_number :: string
  customer :: object_id
  items :: order_items
  subtotal :: rat
  delivery_fee :: rat
  total :: rat
  status :: string
  payment_status :: string
  payment_method :: string
  delivery_type :: "string option"
  delivery_address :: "delivery_address_value option"
  contact_number :: "string option"
  estimated_delivery_time :: "nat option"
  status_history :: "status_entry list"

record store =
  users :: "user list"
  orders :: "order list"

text \<open>\<open>req.session.userId\<close>: absent when there is no session or no user in it.\<close>

type_synonym session = "object_id option"

section \<open>Responses\<close>

text \<open>One constructor for each shape of JSON body the routes send.\<close>

datatype validation_error =
    InvalidProduct "string option"
  | PriceMismatch object_id
  | TotalMismatch

datatype body =
    Message string
  | RoleDenied string string
  | BlockedAccount string "string option"
  | OrderLimitReached string nat
  | StaleCart string
  | ValidationFailed string "validation_error list"
  | OrderValidationErrors string "validation_error list"
  | FieldErrors "string list"
  | PromoAbuse string
  | OrderPlaced string object_id string
  | OrderDocument order
  | OrderUpdated string order
  | OrderCreated string order
  | UserSummary string user
  | ServerError string

type_synonym response = "nat \<times> body"

section \<open>Store queries\<close>

definition User_findById :: "store \<Rightarrow> object_id \<Rightarrow> user option" where
  "User_findById st uid = find (\<lambda>u. user_id u = uid) (users st)"

definition Order_findById :: "store \<Rightarrow> object_id \<Rightarrow> order option" where
  "Order_findById st oid = find (\<lambda>ord. order_oid ord = oid) (orders st)"

text \<open>\<open>Order.findOne({ _id, customer })\<close>\<close>

definition Order_findOne :: "store \<Rightarrow> object_id \<Rightarrow> object_id \<Rightarrow> order option" where
  "Order_findOne st oid uid =
     find (\<lambda>ord. order_oid ord = oid \<and> customer ord = uid) (orders st)"

text \<open>\<open>Order.countDocuments({ customer, status: { $nin: ['delivered', 'cancelled'] } })\<close>\<close>

definition activeOrdersCount :: "store \<Rightarrow> object_id \<Rightarrow> nat" where
  "activeOrdersCount st uid =
     length (filter (\<lambda>ord. customer ord = uid \<and> status ord \<notin> {''delivered'', ''cancelled''})
       (orders st))"

text \<open>Saving a loaded document replaces the stored one with the same \<open>_id\<close>.\<close>

definition Order_save :: "order \<Rightarrow> store \<Rightarrow> store" where
  "Order_save ord st =
     st\<lparr>orders := map (\<lambda>x. if order_oid x = order_oid ord then ord else x) (orders st)\<rparr>"

definition Order_insert :: "order \<Rightarrow> store \<Rightarrow> store" where
  "Order_insert ord st = st\<lparr>orders := orders st @ [ord]\<rparr>"

definition User_save :: "user \<Rightarrow> store \<Rightarrow> store" where
  "User_save u st =
     st\<lparr>users := map (\<lambda>x. if user_id x = user_id u then u else x) (users st)\<rparr>"

definition User_findByIdAndDelete :: "object_id \<Rightarrow> store \<Rightarrow> store" where
  "User_findByIdAndDelete uid st =
     (case find (\<lambda>u. user_id u = uid) (users st) of
        None \<Rightarrow> st
      | Some u \<Rightarrow> st\<lparr>users := remove1 u (users st)\<rparr>)"

section \<open>Role guards\<close>

text \<open>
  A guard either answers the request itself (\<open>Inl\<close>) or hands the request on with the
  user it loaded (\<open>Inr\<close>, the call of \<open>next()\<close>). The user is loaded by the id in
  the session, so the handlers below read \<open>req.session.userId\<close> as the id of that user.
  Failures of the database driver (the \<open>catch\<close> branches answering 500) are not part of
  the model: every query answers.
\<close>

definition adminOnly :: "store \<Rightarrow> session \<Rightarrow> response + user" where
  "adminOnly st sess =
     (case sess of
        None \<Rightarrow> Inl (401, Message ''Unauthorized. Please login.'')
      | Some uid \<Rightarrow>
          (case User_findById st uid of
             None \<Rightarrow> Inl (401, Message ''User not found'')
           | Some u \<Rightarrow>
               if role u \<noteq> ''admin''
               then Inl (403, RoleDenied ''Access denied. Admin privileges required.'' ''customer'')
               else Inr u))"

definition userOnly :: "store \<Rightarrow> session \<Rightarrow> response + user" where
  "userOnly st sess =
     (case sess of
        None \<Rightarrow> Inl (401, Message ''Unauthorized. Please login.'')
      | Some uid \<Rightarrow>
          (case User_findById st uid of
             None \<Rightarrow> Inl (401, Message ''User not found'')
           | Some u \<Rightarrow>
               if role u = ''admin''
               then Inl (403, RoleDenied
                 ''Access denied. This functionality is for customers only. Admins cannot place orders.''
                 ''admin'')
               else Inr u))"

text \<open>
  \<open>isAuthenticated\<close> also returns the session as it leaves it: \<open>req.session.destroy()\<close>
  empties it.
\<close>

definition isAuthenticated :: "store \<Rightarrow> session \<Rightarrow> (response + unit) \<times> session" where
  "isAuthenticated st sess =
     (case sess of
        None \<Rightarrow> (Inl (401, Message ''Unauthorized. Please login.''), sess)
      | Some uid \<Rightarrow>
          (case User_findById st uid of
             None \<Rightarrow> (Inl (401, Message ''User account not found. Please login again.''), None)
           | Some u \<Rightarrow>
               if is_blocked u
               then (Inl (403, BlockedAccount
                        ''Your account has been blocked. Please contact support.''
                        (blocked_reason u)), None)
               else (Inr (), sess)))"

section \<open>Order routes\<close>

subsection \<open>GET /:id\<close>

definition getOrder :: "store \<Rightarrow> session \<Rightarrow> object_id \<Rightarrow> response" where
  "getOrder st sess oid =
     (case userOnly st sess of
        Inl denied \<Rightarrow> denied
      | Inr u \<Rightarrow>
          (case Order_findOne st oid (user_id u) of
             None \<Rightarrow> (404, Message ''Order not found'')
           | Some ord \<Rightarrow> (200, OrderDocument ord)))"

subsection \<open>PATCH /:id/status\<close>

definition status_values :: "string list" where
  "status_values =
     [''confirmed'', ''preparing'', ''ready'', ''out_for_delivery'', ''delivered'', ''cancelled'']"

text \<open>\<open>note || `Status updated to ${status}`\<close>: a missing or empty note takes the default.\<close>

definition note_or_default :: "string option \<Rightarrow> string \<Rightarrow> string" where
  "note_or_default note dflt =
     (case note of None \<Rightarrow> dflt | Some n \<Rightarrow> if n = [] then dflt else n)"

definition patchStatus ::
  "date_time \<Rightarrow> store \<Rightarrow> session \<Rightarrow> object_id \<Rightarrow> string \<Rightarrow> string option \<Rightarrow> response \<times> store"
where
  "patchStatus clock st sess oid new_status note =
     (case adminOnly st sess of
        Inl denied \<Rightarrow> (denied, st)
      | Inr admin \<Rightarrow>
          if new_status \<notin> set status_values then ((400, Message ''Invalid status''), st)
          else
            (case Order_findById st oid of
               None \<Rightarrow> ((404, Message ''Order not found''), st)
             | Some ord \<Rightarrow>
                 let ord' = ord\<lparr>status := new_status,
                       status_history := status_history ord @
                         [\<lparr>entry_status = new_status, entry_timestamp = clock,
                           entry_note = note_or_default note (''Status updated to '' @ new_status)\<rparr>]\<rparr>
                 in ((200, OrderUpdated ''Order status updated successfully'' ord'),
                     Order_save ord' st)))"

subsection \<open>Numbers and dates as text\<close>

text \<open>A whole number inside a template literal prints in decimal.\<close>

definition digit_char :: "nat \<Rightarrow> char" where
  "digit_char d = ''0123456789'' ! d"

fun show_nat :: "nat \<Rightarrow> string" where
  "show_nat n = (if n < 10 then [digit_char n] else show_nat (n div 10) @ [digit_char (n mod 10)])"

declare show_nat.simps [simp del]

definition show_int :: "int \<Rightarrow> string" where
  "show_int i = (if i < 0 then ''-'' @ show_nat (nat (- i)) else show_nat (nat i))"

definition pad :: "nat \<Rightarrow> nat \<Rightarrow> string" where
  "pad w n = replicate (w - length (show_nat n)) (CHR ''0'') @ show_nat n"

text \<open>
  \<open>Date.prototype.toISOString\<close>: \<open>YYYY-MM-DDTHH:mm:ss.sssZ\<close>, and the expanded
  six-digit year with its sign beyond year 9999.
\<close>

definition toISOString :: "date_time \<Rightarrow> string" where
  "toISOString d =
     (if year d \<le> 9999 then pad 4 (year d) else ''+'' @ pad 6 (year d)) @ ''-'' @
     pad 2 (month d) @ ''-'' @ pad 2 (day d) @ ''T'' @ pad 2 (hours d) @ '':'' @
     pad 2 (minutes d) @ '':'' @ pad 2 (seconds d) @ ''.'' @ pad 3 (millis d) @ ''Z''"

text \<open>\<open>date.toISOString().slice(0, 10).replace(/-/g, '')\<close>\<close>

definition dateStr :: "date_time \<Rightarrow> string" where
  "dateStr d = filter (\<lambda>c. c \<noteq> CHR ''-'') (take 10 (toISOString d))"

text \<open>
  \<open>Math.floor(1000 + Math.random() * 9000)\<close>, the draw of \<open>Math.random()\<close> being an
  input.
\<close>

definition random_suffix :: "rat \<Rightarrow> int" where
  "random_suffix r = \<lfloor>1000 + r * 9000\<rfloor>"

text \<open>Customer checkout: \<open>`ORD-${dateStr}-${random}`\<close>\<close>

definition checkout_order_number :: "date_time \<Rightarrow> rat \<Rightarrow> string" where
  "checkout_order_number d r = ''ORD-'' @ dateStr d @ ''-'' @ show_int (random_suffix r)"

text \<open>Admin manual entry: \<open>`ORD${Date.now()}${orderCount + 1}`\<close>\<close>

definition admin_order_number :: "date_time \<Rightarrow> nat \<Rightarrow> string" where
  "admin_order_number d orderCount = ''ORD'' @ show_nat (epoch_ms d) @ show_nat (orderCount + 1)"

subsection \<open>Requests and collaborators\<close>

record payment_info =
  pay_last4 :: string
  pay_brand :: "string option"
  pay_expiry :: string
  pay_cardHolder :: string
  pay_saveCard :: bool

record order_request =
  req_items :: "cart_item list"
  req_subtotal :: rat
  req_deliveryFee :: rat
  req_total :: rat
  req_deliveryType :: string
  req_deliveryInfo :: "delivery_info option"
  req_paymentInfo :: "payment_info option"
  req_paymentMethod :: "string option"
  req_promoCode :: "string option"

record admin_order_request = order_request +
  req_customerId :: "string option"
  req_payment_status :: "string option"
  req_status :: "string option"
  req_note :: "string option"

text \<open>
  Modelled from the spec: the product catalog the price validator consults (sections 3
  and 4.2), whose model is not part of the repository's files: a product has an
  authoritative price and an availability; a lookup finds the product, finds none, or
  fails because the catalog cannot be reached.
\<close>

record product_doc =
  product_price :: rat
  product_available :: bool

datatype catalog_reply = Unreachable | NoSuchProduct | Listed product_doc

text \<open>
  What the order routes call and this repository's sources do not define: the
  driver's \<open>ObjectId.isValid\<close>, the product catalog, the delivery-fee policy and the
  promo-code fraud check (which answers with its reason when it finds abuse).
\<close>

record collaborators =
  ObjectId_isValid :: "string option \<Rightarrow> bool"
  catalog :: "object_id \<Rightarrow> catalog_reply"
  delivery_fee_policy :: "delivery_info option \<Rightarrow> rat"
  checkPromoCodeAbuse :: "object_id \<Rightarrow> string \<Rightarrow> string \<Rightarrow> string option"

text \<open>
  What a request draws from its surroundings: the clock, the draw of \<open>Math.random()\<close>
  behind the order number, the text \<open>Math.random().toString(36).substr(2, 9)\<close> behind
  the card token, the \<open>_id\<close> of the new document and the caller's address.
\<close>

record env =
  now :: date_time
  random :: rat
  random_token :: string
  new_id :: object_id
  ip :: string

text \<open>\<open>item._id || item.id\<close>: an empty \<open>_id\<close> is falsy and gives way to \<open>id\<close>.\<close>

definition product_ref :: "cart_item \<Rightarrow> string option" where
  "product_ref item =
     (case item_oid item of
        None \<Rightarrow> item_id item
      | Some s \<Rightarrow> if s = [] then item_id item else Some s)"

definition show_ref :: "string option \<Rightarrow> string" where
  "show_ref pid = (case pid of None \<Rightarrow> ''undefined'' | Some s \<Rightarrow> s)"

subsection \<open>The price validator\<close>

text \<open>
  Modelled from the spec: \<open>validateOrder\<close> of \<open>utils/priceValidation\<close>, whose source is
  not part of the repository's files, with the result it returns, the catalog replies it
  reads and the errors it reports. Following section 4.2: every line's product is
  looked up in the catalog; a missing or unavailable product is an \<open>InvalidProduct\<close>
  error, a claimed unit price other than the catalog's a \<open>PriceMismatch\<close> (no
  tolerance); the subtotal is recomputed as the sum of catalog price times quantity, the
  delivery fee from the delivery type (nothing for takeaway, the fee policy's answer
  otherwise), the total as their sum; a submitted total further than 0.01 from the
  recomputed one is a \<open>TotalMismatch\<close>. The routes hand the validator the submitted
  subtotal and delivery fee as well, and sections 3 and 8 have it enforced at creation
  that subtotal plus delivery fee is the total within the same tolerance; the validator
  is the only check of the amounts at creation, so a submitted total further than 0.01
  from the submitted subtotal plus delivery fee is a \<open>TotalMismatch\<close> too. Validation
  failures are returned, never thrown; only an unreachable catalog throws, which is the
  result \<open>None\<close>.
\<close>

record validation_result =
  isValid :: bool
  errors :: "validation_error list"

text \<open>
  Modelled from the spec: the pass of \<open>validateOrder\<close> over the lines, returning the
  errors found and the recomputed subtotal.
\<close>

fun check_items ::
  "(object_id \<Rightarrow> catalog_reply) \<Rightarrow> cart_item list \<Rightarrow> (validation_error list \<times> rat) option"
where
  "check_items cat [] = Some ([], 0)"
| "check_items cat (item # rest) =
     (case product_ref item of
        None \<Rightarrow> map_option (\<lambda>(es, sub). (InvalidProduct None # es, sub)) (check_items cat rest)
      | Some pid \<Rightarrow>
          (case cat pid of
             Unreachable \<Rightarrow> None
           | NoSuchProduct \<Rightarrow>
               map_option (\<lambda>(es, sub). (InvalidProduct (Some pid) # es, sub)) (check_items cat rest)
           | Listed p \<Rightarrow>
               if \<not> product_available p
               then map_option (\<lambda>(es, sub). (InvalidProduct (Some pid) # es, sub))
                      (check_items cat rest)
               else map_option
                      (\<lambda>(es, sub).
                         ((if price item \<noteq> product_price p then [PriceMismatch pid] else []) @ es,
                          product_price p * quantity item + sub))
                      (check_items cat rest)))"

text \<open>
  Modelled from the spec: the delivery fee \<open>validateOrder\<close> recomputes (section 4.2:
  takeaway gives 0, delivery the fee of the external fee policy).
\<close>

definition expected_delivery_fee :: "collaborators \<Rightarrow> string \<Rightarrow> delivery_info option \<Rightarrow> rat" where
  "expected_delivery_fee deps deliveryType info =
     (if deliveryType = ''takeaway'' then 0 else delivery_fee_policy deps info)"

text \<open>
  Modelled from the spec: the tolerance of the total check (section 8: epsilon 0.01).
\<close>

definition epsilon :: rat where
  "epsilon = 1 / 100"

text \<open>
  Modelled from the spec: \<open>validateOrder\<close> itself (sections 3, 4.2 and 8), on the
  request fields both routes pass to it.
\<close>

definition validateOrder ::
  "collaborators \<Rightarrow> 'a order_request_scheme \<Rightarrow> validation_result option"
where
  "validateOrder deps req =
     (case check_items (catalog deps) (req_items req) of
        None \<Rightarrow> None
      | Some (es, sub) \<Rightarrow>
          let expected = sub + expected_delivery_fee deps (req_deliveryType req) (req_deliveryInfo req);
              es' = es @ (if \<bar>req_total req - expected\<bar> > epsilon \<or>
                             \<bar>req_subtotal req + req_deliveryFee req - req_total req\<bar> > epsilon
                          then [TotalMismatch] else [])
          in Some \<lparr>isValid = (es' = []), errors = es'\<rparr>)"

subsection \<open>POST /\<close>

definition order_line_of :: "cart_item \<Rightarrow> order_line" where
  "order_line_of item =
     \<lparr>product_oid = product_ref item,
      snapshot_name = name item,
      snapshot_description = description item,
      snapshot_image = image item,
      line_quantity = quantity item,
      size = selectedSize item,
      crust = selectedCrust item,
      unit_price = price item,
      total_price = price item * quantity item\<rparr>"

definition address_of_info :: "delivery_info \<Rightarrow> address_doc" where
  "address_of_info info =
     \<lparr>addr_no = info_no info, addr_street = info_street info, addr_city = info_city info,
      addr_province = info_province info, addr_zip_code = info_zipCode info,
      addr_contact1 = info_contact1 info, addr_contact2 = info_contact2 info\<rparr>"

definition takeaway_address :: address_doc where
  "takeaway_address =
     \<lparr>addr_no = ''N/A'', addr_street = ''Takeaway (Pick up at Store)'', addr_city = ''N/A'',
      addr_province = ''N/A'', addr_zip_code = ''N/A'', addr_contact1 = ''N/A'',
      addr_contact2 = ''N/A''\<rparr>"

text \<open>The document \<open>newOrder\<close> as it stands when \<open>newOrder.save()\<close> is called.\<close>

definition newOrder ::
  "env \<Rightarrow> object_id \<Rightarrow> order_request \<Rightarrow> delivery_address_value option \<Rightarrow> order"
where
  "newOrder e userId req addr =
     \<lparr>order_oid = new_id e,
      order_number = checkout_order_number (now e) (random e),
      customer = userId,
      items = Lines (map order_line_of (req_items req)),
      subtotal = req_subtotal req,
      delivery_fee = req_deliveryFee req,
      total = req_total req,
      status = ''confirmed'',
      payment_status = ''paid'',
      payment_method = (case req_paymentMethod req of None \<Rightarrow> ''card'' | Some m \<Rightarrow> m),
      delivery_type = None,
      delivery_address =
        (if req_deliveryType req = ''takeaway'' then Some (Structured takeaway_address) else addr),
      contact_number = None,
      estimated_delivery_time = Some (epoch_ms (now e) + 45 * 60 * 1000),
      status_history =
        [\<lparr>entry_status = ''confirmed'', entry_timestamp = now e, entry_note = ''Order created''\<rparr>]\<rparr>"

text \<open>Step 2 of the handler: the card is pushed unless one with the same last four
  digits is already saved.\<close>

definition saveCard :: "env \<Rightarrow> object_id \<Rightarrow> payment_info \<Rightarrow> store \<Rightarrow> store option" where
  "saveCard e userId info st =
     (case User_findById st userId of
        None \<Rightarrow> None
      | Some u \<Rightarrow>
          if list_ex (\<lambda>c. last4 c = pay_last4 info) (savedCards u) then Some st
          else Some (User_save
                 (u\<lparr>savedCards := savedCards u @
                      [\<lparr>last4 = pay_last4 info,
                        brand = (case pay_brand info of None \<Rightarrow> ''Visa''
                                 | Some b \<Rightarrow> if b = [] then ''Visa'' else b),
                        expiry = pay_expiry info,
                        cardHolder = pay_cardHolder info,
                        token = ''tok_'' @ random_token e\<rparr>]\<rparr>) st))"

definition order_limit_message :: string where
  "order_limit_message =
     ''You have reached the maximum limit of 5 active orders. Please wait for your existing orders to be delivered before placing new ones.''"

definition createOrder ::
  "collaborators \<Rightarrow> env \<Rightarrow> store \<Rightarrow> object_id \<Rightarrow> order_request \<Rightarrow> response \<times> store"
where
  "createOrder deps e st userId req =
     (if activeOrdersCount st userId \<ge> 5
      then ((400, OrderLimitReached order_limit_message (activeOrdersCount st userId)), st)
      else
        case find (\<lambda>item. \<not> ObjectId_isValid deps (product_ref item)) (req_items req) of
          Some item \<Rightarrow>
            ((400, StaleCart (''Invalid product ID: '' @ show_ref (product_ref item) @
                ''. Your cart might contain old data. Please clear your cart and try again.'')), st)
        | None \<Rightarrow>
            (case validateOrder deps req of
               None \<Rightarrow> ((500, ServerError ''Failed to place order''), st)
             | Some priceValidation \<Rightarrow>
                 if \<not> isValid priceValidation
                 then ((400, ValidationFailed
                          ''Order validation failed. Prices may have changed or there was an error.''
                          (errors priceValidation)), st)
                 else
                   (case (case req_promoCode req of
                            None \<Rightarrow> None
                          | Some code \<Rightarrow>
                              if code = [] then None
                              else checkPromoCodeAbuse deps userId (ip e) code) of
                      Some reason \<Rightarrow> ((403, PromoAbuse reason), st)
                    | None \<Rightarrow>
                        if req_deliveryType req = ''delivery'' \<and> req_deliveryInfo req = None
                        then ((500, ServerError ''Failed to place order''), st)
                        else
                          let addr = (if req_deliveryType req = ''delivery''
                                      then map_option (Structured \<circ> address_of_info)
                                             (req_deliveryInfo req)
                                      else None);
                              ord = newOrder e userId req addr;
                              st1 = Order_insert ord st
                          in (case (case req_paymentInfo req of
                                      None \<Rightarrow> Some st1
                                    | Some info \<Rightarrow>
                                        if pay_saveCard info then saveCard e userId info st1
                                        else Some st1) of
                                None \<Rightarrow> ((500, ServerError ''Failed to place order''), st1)
                              | Some st2 \<Rightarrow>
                                  ((201, OrderPlaced ''Order placed successfully''
                                      (order_oid ord) (order_number ord)), st2)))))"

definition postOrder ::
  "collaborators \<Rightarrow> env \<Rightarrow> store \<Rightarrow> session \<Rightarrow> order_request \<Rightarrow> response \<times> store"
where
  "postOrder deps e st sess req =
     (case userOnly st sess of
        Inl denied \<Rightarrow> (denied, st)
      | Inr u \<Rightarrow> createOrder deps e st (user_id u) req)"

subsection \<open>POST /admin/create\<close>

definition falsy :: "string option \<Rightarrow> bool" where
  "falsy s = (case s of None \<Rightarrow> True | Some t \<Rightarrow> t = [])"

definition or_default :: "string option \<Rightarrow> string \<Rightarrow> string" where
  "or_default s dflt = (case s of None \<Rightarrow> dflt | Some t \<Rightarrow> t)"

definition adminCreateOrder ::
  "collaborators \<Rightarrow> env \<Rightarrow> store \<Rightarrow> session \<Rightarrow> admin_order_request \<Rightarrow> response \<times> store"
where
  "adminCreateOrder deps e st sess req =
     (case adminOnly st sess of
        Inl denied \<Rightarrow> (denied, st)
      | Inr admin \<Rightarrow>
          if falsy (req_customerId req) \<or> req_items req = [] \<or> req_total req = 0
          then ((400, Message
                  ''Missing required fields: customerId, items, and total are required''), st)
          else
            (case User_findById st (or_default (req_customerId req) []) of
               None \<Rightarrow> ((404, Message ''Customer not found''), st)
             | Some cust \<Rightarrow>
                 (case find (\<lambda>item. \<not> ObjectId_isValid deps (product_ref item)) (req_items req) of
                    Some item \<Rightarrow>
                      ((400, Message (''Invalid product ID: '' @ show_ref (product_ref item))), st)
                  | None \<Rightarrow>
                      (case validateOrder deps req of
                         None \<Rightarrow> ((500, ServerError ''Failed to create order''), st)
                       | Some priceValidation \<Rightarrow>
                           if \<not> isValid priceValidation
                           then ((400, OrderValidationErrors ''Order validation failed''
                                    (errors priceValidation)), st)
                           else
                             let new_status = or_default (req_status req) ''confirmed'';
                                 ord =
                                   \<lparr>order_oid = new_id e,
                                    order_number =
                                      admin_order_number (now e) (length (orders st)),
                                    customer = or_default (req_customerId req) [],
                                    items = Submitted (req_items req),
                                    subtotal = req_subtotal req,
                                    delivery_fee = req_deliveryFee req,
                                    total = req_total req,
                                    status = new_status,
                                    payment_status =
                                      or_default (req_payment_status req) ''pending'',
                                    payment_method = or_default (req_paymentMethod req) ''cash'',
                                    delivery_type = Some (req_deliveryType req),
                                    delivery_address =
                                      Some (Plain (case req_deliveryInfo req of
                                                     None \<Rightarrow> []
                                                   | Some info \<Rightarrow> info_address info)),
                                    contact_number =
                                      Some (case req_deliveryInfo req of
                                              None \<Rightarrow> phone cust
                                            | Some info \<Rightarrow>
                                                if info_contact1 info = [] then phone cust
                                                else info_contact1 info),
                                    estimated_delivery_time = None,
                                    status_history =
                                      [\<lparr>entry_status = new_status, entry_timestamp = now e,
                                        entry_note = note_or_default (req_note req)
                                          ''Order created manually by admin''\<rparr>]\<rparr>
                             in ((201, OrderCreated ''Order created successfully'' ord),
                                 Order_insert ord st)))))"

section \<open>User management routes\<close>

text \<open>
  The request validators of these routes come from the validation library: its sanitizer
  \<open>trim()\<close>, which strips white space at both ends, and its e-mail rules \<open>isEmail\<close> and
  \<open>normalizeEmail\<close> are taken as given.
\<close>

definition isLength :: "nat \<Rightarrow> nat \<Rightarrow> string \<Rightarrow> bool" where
  "isLength lo hi s = (lo \<le> length s \<and> length s \<le> hi)"

subsection \<open>PATCH /users/:id/block\<close>

definition blockUser ::
  "(string \<Rightarrow> string) \<Rightarrow> date_time \<Rightarrow> store \<Rightarrow> session \<Rightarrow> object_id \<Rightarrow> string option
     \<Rightarrow> response \<times> store"
where
  "blockUser trim clock st sess target body_reason =
     (case adminOnly st sess of
        Inl denied \<Rightarrow> (denied, st)
      | Inr admin \<Rightarrow>
          let reason = map_option trim body_reason in
          if (case reason of None \<Rightarrow> False | Some r \<Rightarrow> \<not> isLength 5 500 r)
          then ((400, FieldErrors [''Block reason must be between 5 and 500 characters'']), st)
          else if target = user_id admin
          then ((400, Message ''You cannot block yourself''), st)
          else
            (case User_findById st target of
               None \<Rightarrow> ((404, Message ''User not found''), st)
             | Some u \<Rightarrow>
                 if role u = ''admin'' then ((400, Message ''Cannot block admin users''), st)
                 else if is_blocked u then ((400, Message ''User is already blocked''), st)
                 else
                   let u' = u\<lparr>is_blocked := True,
                              blocked_reason := Some (note_or_default reason ''Blocked by admin''),
                              blocked_at := Some clock,
                              blocked_by := Some (user_id admin)\<rparr>
                   in ((200, UserSummary ''User blocked successfully'' u'), User_save u' st)))"

subsection \<open>PATCH /users/:id/unblock\<close>

definition unblockUser :: "store \<Rightarrow> session \<Rightarrow> object_id \<Rightarrow> response \<times> store" where
  "unblockUser st sess target =
     (case adminOnly st sess of
        Inl denied \<Rightarrow> (denied, st)
      | Inr admin \<Rightarrow>
          (case User_findById st target of
             None \<Rightarrow> ((404, Message ''User not found''), st)
           | Some u \<Rightarrow>
               if \<not> is_blocked u then ((400, Message ''User is not blocked''), st)
               else
                 let u' = u\<lparr>is_blocked := False, blocked_reason := None, blocked_at := None,
                            blocked_by := None\<rparr>
                 in ((200, UserSummary ''User unblocked successfully'' u'), User_save u' st)))"

subsection \<open>DELETE /users/:id\<close>

definition deleteUser :: "store \<Rightarrow> session \<Rightarrow> object_id \<Rightarrow> response \<times> store" where
  "deleteUser st sess target =
     (case adminOnly st sess of
        Inl denied \<Rightarrow> (denied, st)
      | Inr admin \<Rightarrow>
          if target = user_id admin then ((400, Message ''You cannot delete yourself''), st)
          else
            (case User_findById st target of
               None \<Rightarrow> ((404, Message ''User not found''), st)
             | Some u \<Rightarrow>
                 if role u = ''admin'' then ((400, Message ''Cannot delete admin users''), st)
                 else ((200, Message ''User deleted successfully''),
                       User_findByIdAndDelete target st)))"

subsection \<open>PUT /users/:id\<close>

record user_update =
  upd_full_name :: "string option"
  upd_email :: "string option"
  upd_role :: "string option"
  upd_is_verified :: "bool option"
  upd_address :: "(string \<rightharpoonup> string) option"

text \<open>The validation chain of the route.\<close>

definition update_field_errors ::
  "(string \<Rightarrow> string) \<Rightarrow> (string \<Rightarrow> bool) \<Rightarrow> user_update \<Rightarrow> string list"
where
  "update_field_errors trim isEmail upd =
     (case upd_full_name upd of
        None \<Rightarrow> []
      | Some n \<Rightarrow> if isLength 2 100 (trim n) then []
                  else [''Full name must be between 2 and 100 characters'']) @
     (case upd_email upd of
        None \<Rightarrow> []
      | Some m \<Rightarrow> if isEmail m then [] else [''Invalid email format'']) @
     (case upd_role upd of
        None \<Rightarrow> []
      | Some r \<Rightarrow> if r \<in> set [''customer'', ''admin''] then []
                  else [''Role must be either customer or admin''])"

definition sanitize_update ::
  "(string \<Rightarrow> string) \<Rightarrow> (string \<Rightarrow> string) \<Rightarrow> user_update \<Rightarrow> user_update"
where
  "sanitize_update trim normalizeEmail upd =
     upd\<lparr>upd_full_name := map_option trim (upd_full_name upd),
         upd_email := map_option normalizeEmail (upd_email upd),
         upd_address := map_option
           (\<lambda>a k. if k \<in> set [''no'', ''street'', ''city'', ''state'', ''zip_code'']
                  then map_option trim (a k) else a k)
           (upd_address upd)\<rparr>"

text \<open>\<open>User.findOne({ email, _id: { $ne: id } })\<close>\<close>

definition email_in_use :: "store \<Rightarrow> string \<Rightarrow> object_id \<Rightarrow> bool" where
  "email_in_use st mail target = list_ex (\<lambda>u. email u = mail \<and> user_id u \<noteq> target) (users st)"

definition updateUser ::
  "(string \<Rightarrow> string) \<Rightarrow> (string \<Rightarrow> bool) \<Rightarrow> (string \<Rightarrow> string) \<Rightarrow> store \<Rightarrow> session \<Rightarrow>
     object_id \<Rightarrow> user_update \<Rightarrow> response \<times> store"
where
  "updateUser trim isEmail normalizeEmail st sess target raw =
     (case adminOnly st sess of
        Inl denied \<Rightarrow> (denied, st)
      | Inr admin \<Rightarrow>
          if update_field_errors trim isEmail raw \<noteq> []
          then ((400, FieldErrors (update_field_errors trim isEmail raw)), st)
          else
            let upd = sanitize_update trim normalizeEmail raw in
            if target = user_id admin
            then ((400, Message ''Use /api/admin/profile to edit your own profile''), st)
            else
              (case User_findById st target of
                 None \<Rightarrow> ((404, Message ''User not found''), st)
               | Some u \<Rightarrow>
                   let u1 = (if falsy (upd_full_name upd) then u
                             else u\<lparr>full_name := or_default (upd_full_name upd) []\<rparr>);
                       u2 = (case upd_role upd of None \<Rightarrow> u1 | Some r \<Rightarrow> u1\<lparr>role := r\<rparr>);
                       u3 = (case upd_is_verified upd of
                               None \<Rightarrow> u2
                             | Some v \<Rightarrow> u2\<lparr>is_verified := v\<rparr>);
                       change_email = (\<not> falsy (upd_email upd) \<and> upd_email upd \<noteq> Some (email u))
                   in if change_email \<and> email_in_use st (or_default (upd_email upd) []) target
                      then ((400, Message ''Email already in use by another account''), st)
                      else
                        let u4 = (if change_email
                                  then u3\<lparr>email := or_default (upd_email upd) []\<rparr> else u3);
                            u5 = (case upd_address upd of
                                    None \<Rightarrow> u4
                                  | Some a \<Rightarrow> u4\<lparr>address := address u ++ a\<rparr>)
                        in ((200, UserSummary ''User updated successfully'' u5),
                            User_save u5 st)))"

section \<open>The cart of the frontend\<close>

subsection \<open>Stored carts\<close>

text \<open>
  What \<open>JSON.parse\<close> can return. An object keeps its members in order; reading a
  property takes the last member of that name.
\<close>

datatype json =
    JNull
  | JBool bool
  | JNum rat
  | JStr string
  | JArr "json list"
  | JObj "(string \<times> json) list"

text \<open>A JavaScript value read out of parsed JSON: \<open>None\<close> is \<open>undefined\<close>.\<close>

type_synonym js_value = "json option"

definition property :: "json \<Rightarrow> string \<Rightarrow> js_value" where
  "property v key = (case v of JObj members \<Rightarrow> map_of (rev members) key | _ \<Rightarrow> None)"

definition truthy :: "js_value \<Rightarrow> bool" where
  "truthy v =
     (case v of
        None \<Rightarrow> False
      | Some JNull \<Rightarrow> False
      | Some (JBool b) \<Rightarrow> b
      | Some (JNum n) \<Rightarrow> n \<noteq> 0
      | Some (JStr s) \<Rightarrow> s \<noteq> []
      | Some (JArr _) \<Rightarrow> True
      | Some (JObj _) \<Rightarrow> True)"

definition js_or :: "js_value \<Rightarrow> js_value \<Rightarrow> js_value" where
  "js_or a b = (if truthy a then a else b)"

definition hex_digit :: "char \<Rightarrow> bool" where
  "hex_digit c = (c \<in> set ''0123456789abcdefABCDEF'')"

text \<open>\<open>/^[a-f\d]{n}$/i.test(s)\<close>\<close>

fun match_hex :: "nat \<Rightarrow> string \<Rightarrow> bool" where
  "match_hex 0 s = (s = [])"
| "match_hex (Suc n) s = (case s of [] \<Rightarrow> False | c # cs \<Rightarrow> hex_digit c \<and> match_hex n cs)"

definition isValidObjectId :: "js_value \<Rightarrow> bool" where
  "isValidObjectId v =
     (if \<not> truthy v then False
      else case v of Some (JStr s) \<Rightarrow> match_hex 24 s | _ \<Rightarrow> False)"

definition typeof_number :: "js_value \<Rightarrow> bool" where
  "typeof_number v = (case v of Some (JNum _) \<Rightarrow> True | _ \<Rightarrow> False)"

text \<open>
  The callback of \<open>parsed.some\<close>. Reading a property of \<open>null\<close> throws, which is the
  result \<open>None\<close>. The global \<open>isNaN\<close> is taken as given.
\<close>

definition stale_item :: "(js_value \<Rightarrow> bool) \<Rightarrow> json \<Rightarrow> bool option" where
  "stale_item isNaN item =
     (if item = JNull then None
      else
        let productId = js_or (property item ''_id'') (property item ''id'')
        in Some (\<not> truthy productId \<or> typeof_number productId \<or> \<not> isNaN productId \<or>
                 \<not> isValidObjectId productId))"

text \<open>\<open>Array.prototype.some\<close>: stops at the first item the callback accepts.\<close>

fun hasStaleData :: "(js_value \<Rightarrow> bool) \<Rightarrow> json list \<Rightarrow> bool option" where
  "hasStaleData isNaN [] = Some False"
| "hasStaleData isNaN (item # rest) =
     (case stale_item isNaN item of
        None \<Rightarrow> None
      | Some True \<Rightarrow> Some True
      | Some False \<Rightarrow> hasStaleData isNaN rest)"

text \<open>
  The initializer of the cart state. Its second result is the \<open>cartItems\<close> entry of
  local storage as the initializer leaves it. \<open>JSON.parse\<close> is taken as given, \<open>None\<close>
  being its \<open>SyntaxError\<close>; a parsed value that is not an array has no \<open>some\<close>, and the
  call throws into the same handler.
\<close>

definition initialCart ::
  "(string \<Rightarrow> json option) \<Rightarrow> (js_value \<Rightarrow> bool) \<Rightarrow> string option \<Rightarrow> json list \<times> string option"
where
  "initialCart parse isNaN savedCart =
     (case savedCart of
        None \<Rightarrow> ([], savedCart)
      | Some s \<Rightarrow>
          if s = [] then ([], savedCart)
          else
            (case parse s of
               None \<Rightarrow> ([], None)
             | Some (JArr parsed) \<Rightarrow>
                 (case hasStaleData isNaN parsed of
                    None \<Rightarrow> ([], None)
                  | Some True \<Rightarrow> ([], None)
                  | Some False \<Rightarrow> (parsed, savedCart))
             | Some _ \<Rightarrow> ([], None)))"

subsection \<open>Cart operations\<close>

definition isValidCartItem :: "cart_item \<Rightarrow> bool" where
  "isValidCartItem item =
     (let productId = map_option JStr (product_ref item)
      in truthy productId \<and> isValidObjectId productId)"

definition same_line ::
  "cart_item \<Rightarrow> string option \<Rightarrow> string option \<Rightarrow> string option \<Rightarrow> bool"
where
  "same_line item i sz cr = (item_id item = i \<and> selectedSize item = sz \<and> selectedCrust item = cr)"

definition addToCart :: "cart_item \<Rightarrow> cart_item list \<Rightarrow> cart_item list" where
  "addToCart product prevItems =
     (if \<not> isValidCartItem product then prevItems
      else
        case find (\<lambda>item. same_line item (item_id product) (selectedSize product)
                     (selectedCrust product)) prevItems of
          Some existingItem \<Rightarrow>
            map (\<lambda>item. if same_line item (item_id product) (selectedSize product)
                          (selectedCrust product)
                        then item\<lparr>quantity := quantity item + 1\<rparr> else item) prevItems
        | None \<Rightarrow> prevItems @ [product\<lparr>quantity := 1\<rparr>])"

definition removeFromCart ::
  "string option \<Rightarrow> string option \<Rightarrow> string option \<Rightarrow> cart_item list \<Rightarrow> cart_item list"
where
  "removeFromCart i sz cr prevItems = filter (\<lambda>item. \<not> same_line item i sz cr) prevItems"

definition updateQuantity ::
  "string option \<Rightarrow> string option \<Rightarrow> string option \<Rightarrow> rat \<Rightarrow> cart_item list \<Rightarrow> cart_item list"
where
  "updateQuantity i sz cr delta prevItems =
     map (\<lambda>item.
            if same_line item i sz cr
            then (let newQuantity = quantity item + delta
                  in if newQuantity > 0 then item\<lparr>quantity := newQuantity\<rparr> else item)
            else item) prevItems"

definition clearCart :: "cart_item list" where
  "clearCart = []"

text \<open>The effect run after every change keeps the valid items only.\<close>

definition validItems :: "cart_item list \<Rightarrow> cart_item list" where
  "validItems cartItems = filter isValidCartItem cartItems"

section \<open>Vocabulary of the properties\<close>

text \<open>
  The catalog's price of a submitted line, a line whose claimed price differs from it,
  and the total recomputed from the catalog and the fee policy.
\<close>

definition listed_price :: "collaborators \<Rightarrow> cart_item \<Rightarrow> rat option" where
  "listed_price deps item =
     (case product_ref item of
        None \<Rightarrow> None
      | Some pid \<Rightarrow> (case catalog deps pid of Listed p \<Rightarrow> Some (product_price p) | _ \<Rightarrow> None))"

definition price_differs :: "collaborators \<Rightarrow> cart_item \<Rightarrow> bool" where
  "price_differs deps item =
     (case listed_price deps item of None \<Rightarrow> False | Some p \<Rightarrow> price item \<noteq> p)"


text \<open>
  The form \<open>ORD-<YYYYMMDD>-<4 digits>\<close> the spec gives for an order number: seventeen
  characters, eight digits after \<open>ORD-\<close>, a dash, four digits.
\<close>

definition is_digit :: "char \<Rightarrow> bool" where
  "is_digit c = (c \<in> set ''0123456789'')"

definition checkout_form :: "string \<Rightarrow> bool" where
  "checkout_form s =
     (length s = 17 \<and> take 4 s = ''ORD-'' \<and> list_all is_digit (take 8 (drop 4 s)) \<and>
      take 1 (drop 12 s) = ''-'' \<and> list_all is_digit (drop 13 s))"

text \<open>
  The product id the cart reads from a stored item, and the three ways in which it can
  be unusable: missing, numeric, not shaped like an ObjectId (a string of exactly 24
  hexadecimal digits).
\<close>

definition product_id_of :: "json \<Rightarrow> js_value" where
  "product_id_of item = js_or (property item ''_id'') (property item ''id'')"

definition missing_id :: "js_value \<Rightarrow> bool" where
  "missing_id v = (\<not> truthy v)"

definition numeric_id :: "(js_value \<Rightarrow> bool) \<Rightarrow> js_value \<Rightarrow> bool" where
  "numeric_id isNaN v = (typeof_number v \<or> \<not> isNaN v)"

definition objectid_shaped :: "js_value \<Rightarrow> bool" where
  "objectid_shaped v =
     (case v of Some (JStr s) \<Rightarrow> length s = 24 \<and> list_all hex_digit s | _ \<Rightarrow> False)"

definition well_identified :: "(js_value \<Rightarrow> bool) \<Rightarrow> json \<Rightarrow> bool" where
  "well_identified isNaN item =
     (item \<noteq> JNull \<and> \<not> missing_id (product_id_of item) \<and>
      \<not> numeric_id isNaN (product_id_of item) \<and> objectid_shaped (product_id_of item))"

section \<open>Sample data\<close>

text \<open>Concrete documents on which the theorems below are exercised.\<close>

definition sample_user :: "object_id \<Rightarrow> string \<Rightarrow> user" where
  "sample_user uid r =
     \<lparr>user_id = uid, email = uid @ ''@example.com'', full_name = ''Sample User'', role = r,
      is_verified = True, is_blocked = False, blocked_reason = None, blocked_at = None,
      blocked_by = None, phone = ''0110000000'', address = Map.empty, savedCards = []\<rparr>"

definition sample_clock :: date_time where
  "sample_clock =
     \<lparr>epoch_ms = 1730000000000, year = 2024, month = 10, day = 27, hours = 3, minutes = 33,
      seconds = 20, millis = 0\<rparr>"

definition sample_order :: "object_id \<Rightarrow> object_id \<Rightarrow> string \<Rightarrow> order" where
  "sample_order oid uid s =
     \<lparr>order_oid = oid, order_number = ''ORD-20241027-1234'', customer = uid, items = Lines [],
      subtotal = 20, delivery_fee = 2, total = 22, status = s, payment_status = ''paid'',
      payment_method = ''card'', delivery_type = None, delivery_address = None,
      contact_number = None, estimated_delivery_time = None,
      status_history =
        [\<lparr>entry_status = ''confirmed'', entry_timestamp = sample_clock,
          entry_note = ''Order created''\<rparr>]\<rparr>"

definition sample_store :: store where
  "sample_store =
     \<lparr>users = [sample_user ''alice'' ''customer'', sample_user ''bob'' ''customer'',
               sample_user ''root'' ''admin'', sample_user ''boss'' ''admin''],
      orders = [sample_order ''o1'' ''alice'' ''confirmed'',
                sample_order ''o2'' ''bob'' ''delivered'']\<rparr>"

definition sample_product_id :: object_id where
  "sample_product_id = ''64b7f0a1c2d3e4f5a6b7c8d9''"

definition sample_deps :: "rat \<Rightarrow> collaborators" where
  "sample_deps catalog_price =
     \<lparr>ObjectId_isValid = (\<lambda>pid. case pid of None \<Rightarrow> False | Some s \<Rightarrow> match_hex 24 s),
      catalog = (\<lambda>pid. if pid = sample_product_id
                        then Listed \<lparr>product_price = catalog_price, product_available = True\<rparr>
                        else NoSuchProduct),
      delivery_fee_policy = (\<lambda>info. 2),
      checkPromoCodeAbuse = (\<lambda>userId addr code. None)\<rparr>"

definition sample_env :: env where
  "sample_env =
     \<lparr>now = sample_clock, random = 1 / 2, random_token = ''k3j9x0q2a'', new_id = ''o9'',
      ip = ''127.0.0.1''\<rparr>"

definition sample_item :: cart_item where
  "sample_item =
     \<lparr>item_oid = Some sample_product_id, item_id = None, name = ''Margherita'',
      description = ''Tomato and mozzarella'', image = ''margherita.png'',
      selectedSize = Some ''Medium'', selectedCrust = Some ''Thin'', price = 10, quantity = 2\<rparr>"

definition sample_info :: delivery_info where
  "sample_info =
     \<lparr>info_no = ''12'', info_street = ''Lake Road'', info_city = ''Kandy'',
      info_province = ''Central'', info_zipCode = ''20000'', info_address = ''12 Lake Road, Kandy'',
      info_contact1 = ''0771234567'', info_contact2 = ''''\<rparr>"

definition sample_request :: "rat \<Rightarrow> rat \<Rightarrow> rat \<Rightarrow> order_request" where
  "sample_request sub fee tot =
     \<lparr>req_items = [sample_item], req_subtotal = sub, req_deliveryFee = fee, req_total = tot,
      req_deliveryType = ''delivery'', req_deliveryInfo = Some sample_info,
      req_paymentInfo = None, req_paymentMethod = None, req_promoCode = None\<rparr>"

definition four_active :: store where
  "four_active =
     sample_store\<lparr>orders :=
       [sample_order ''a1'' ''alice'' ''confirmed'', sample_order ''a2'' ''alice'' ''preparing'',
        sample_order ''a3'' ''alice'' ''ready'', sample_order ''a4'' ''alice'' ''out_for_delivery'',
        sample_order ''a5'' ''alice'' ''delivered'', sample_order ''a6'' ''alice'' ''cancelled'',
        sample_order ''b1'' ''bob'' ''confirmed'']\<rparr>"

definition five_active :: store where
  "five_active = four_active\<lparr>orders := orders four_active @ [sample_order ''a7'' ''alice'' ''confirmed'']\<rparr>"

definition sample_admin_request :: admin_order_request where
  "sample_admin_request =
     \<lparr>req_items = [sample_item], req_subtotal = 20, req_deliveryFee = 2, req_total = 22,
      req_deliveryType = ''delivery'', req_deliveryInfo = Some sample_info,
      req_paymentInfo = None, req_paymentMethod = None, req_promoCode = None,
      req_customerId = Some ''alice'', req_payment_status = None, req_status = None,
      req_note = None\<rparr>"

definition later_clock :: date_time where
  "later_clock = sample_clock\<lparr>epoch_ms := 1730040000000, hours := 14, minutes := 40, seconds := 0\<rparr>"

definition blocked :: "user \<Rightarrow> user" where
  "blocked u =
     u\<lparr>is_blocked := True, blocked_reason := Some ''Repeated chargebacks'',
       blocked_at := Some sample_clock, blocked_by := Some ''root''\<rparr>"

definition blocked_admin_store :: store where
  "blocked_admin_store =
     sample_store\<lparr>users :=
       [sample_user ''alice'' ''customer'', sample_user ''bob'' ''customer'',
        sample_user ''root'' ''admin'', blocked (sample_user ''boss'' ''admin'')]\<rparr>"

definition blocked_customer_store :: store where
  "blocked_customer_store =
     sample_store\<lparr>users :=
       [sample_user ''alice'' ''customer'', blocked (sample_user ''bob'' ''customer''),
        sample_user ''root'' ''admin'', sample_user ''boss'' ''admin'']\<rparr>"

definition cart_sample :: cart_item where
  "cart_sample = sample_item\<lparr>item_id := Some sample_product_id\<rparr>"

definition quoted :: "string \<Rightarrow> string" where
  "quoted s = CHR 0x22 # s @ [CHR 0x22]"

definition sample_saved :: string where
  "sample_saved = ''[{'' @ quoted ''_id'' @ '':'' @ quoted sample_product_id @ ''}]''"

definition stale_saved :: string where
  "stale_saved =
     ''[{'' @ quoted ''_id'' @ '':'' @ quoted sample_product_id @ ''},{'' @ quoted ''id'' @ '':7}]''"

definition sample_parse :: "string \<Rightarrow> json option" where
  "sample_parse s =
     (if s = sample_saved then Some (JArr [JObj [(''_id'', JStr sample_product_id)]])
      else if s = stale_saved
      then Some (JArr [JObj [(''_id'', JStr sample_product_id)], JObj [(''id'', JNum 7)]])
      else None)"

text \<open>
  Stand-ins for \<open>JSON.parse\<close> and \<open>isNaN\<close> on the sample texts: the parser knows the two
  sample carts and rejects everything else; a number or a string of decimal digits is a
  number, anything else is not.
\<close>

definition sample_isNaN :: "js_value \<Rightarrow> bool" where
  "sample_isNaN v =
     (case v of
        Some (JNum n) \<Rightarrow> False
      | Some (JStr t) \<Rightarrow> \<not> list_all is_digit t
      | _ \<Rightarrow> True)"

text \<open>
  A stand-in for the library's \<open>trim()\<close> on the sample texts: it strips ASCII white
  space, on which it agrees with the library.
\<close>

definition white_space :: "char \<Rightarrow> bool" where
  "white_space c = (c \<in> {CHR '' '', CHR 0x09, CHR 0x0A, CHR 0x0B, CHR 0x0C, CHR 0x0D})"

definition sample_trim :: "string \<Rightarrow> string" where
  "sample_trim s = rev (dropWhile white_space (rev (dropWhile white_space s)))"

definition later_env :: env where
  "later_env =
     \<lparr>now = later_clock, random = 50001 / 100000, random_token = ''p7c1m4z8w'', new_id = ''o10'',
      ip = ''127.0.0.1''\<rparr>"

text \<open>
  A stored cart whose only item has a well-formed id and the quantity 0, with a stand-in
  for \<open>JSON.parse\<close> that knows this text.
\<close>

definition zero_saved :: string where
  "zero_saved =
     ''[{'' @ quoted ''_id'' @ '':'' @ quoted sample_product_id @ '','' @ quoted ''quantity'' @
     '':0}]''"

definition zero_parse :: "string \<Rightarrow> json option" where
  "zero_parse s =
     (if s = zero_saved
      then Some (JArr [JObj [(''_id'', JStr sample_product_id), (''quantity'', JNum 0)]])
      else None)"

section \<open>Facts about the store and the guards\<close>

lemma find_SomeD: "find P xs = Some x \<Longrightarrow> x \<in> set xs \<and> P x"
  by (induction xs) (auto split: if_splits)

lemma find_None_iff_all: "find P xs = None \<longleftrightarrow> (\<forall>x\<in>set xs. \<not> P x)"
  by (induction xs) auto


lemma adminOnly_session:
  "adminOnly st sess = Inr u \<Longrightarrow> sess = Some (user_id u) \<and> role u = ''admin''"
  by (auto simp: adminOnly_def User_findById_def split: option.splits if_splits dest: find_SomeD)


lemma sample_root:
  "adminOnly sample_store (Some ''root'') = Inr (sample_user ''root'' ''admin'')"
  by (simp add: adminOnly_def User_findById_def sample_store_def sample_user_def)

section \<open>A customer reads own orders only\<close>



section \<open>Status transitions\<close>

lemma find_map_replace:
  assumes "find (\<lambda>x. key x = k) xs = Some y" and "key y' = key y"
  shows "find (\<lambda>x. key x = k) (map (\<lambda>x. if key x = key y' then y' else x) xs) = Some y'"
  using assms by (induction xs) (auto split: if_splits)

lemma Order_findById_save:
  assumes "Order_findById st oid = Some ord" and "order_oid ord' = order_oid ord"
  shows "Order_findById (Order_save ord' st) oid = Some ord'"
  using find_map_replace [of order_oid oid "orders st" ord ord'] assms
  by (simp add: Order_findById_def Order_save_def)

text \<open>
  C6: for an admin caller and an existing order, \<open>PATCH /:id/status\<close> rejects a status
  outside the six listed values with 400 "Invalid status" and leaves the store as it
  was; a listed value is accepted whatever the order's current status is: the answer is
  200 with the order whose status is the new value and whose history has gained exactly
  one entry (the new status, the time of the request, the note or its default), and that
  order is what the store then holds under the id.
\<close>

theorem patchStatus_any_listed_status:
  assumes "adminOnly st sess = Inr admin" and "Order_findById st oid = Some ord"
  shows "(new_status \<notin> {''confirmed'', ''preparing'', ''ready'', ''out_for_delivery'',
                          ''delivered'', ''cancelled''} \<longrightarrow>
            patchStatus clock st sess oid new_status note = ((400, Message ''Invalid status''), st)) \<and>
         (new_status \<in> {''confirmed'', ''preparing'', ''ready'', ''out_for_delivery'',
                          ''delivered'', ''cancelled''} \<longrightarrow>
            (\<exists>entry st'.
               patchStatus clock st sess oid new_status note =
                 ((200, OrderUpdated ''Order status updated successfully''
                     (ord\<lparr>status := new_status, status_history := status_history ord @ [entry]\<rparr>)),
                  st') \<and>
               entry_status entry = new_status \<and> entry_timestamp entry = clock \<and>
               entry_note entry = note_or_default note (''Status updated to '' @ new_status) \<and>
               Order_findById st' oid =
                 Some (ord\<lparr>status := new_status, status_history := status_history ord @ [entry]\<rparr>) \<and>
               users st' = users st \<and> length (orders st') = length (orders st)))"
proof -
  have vals: "set status_values = {''confirmed'', ''preparing'', ''ready'', ''out_for_delivery'',
                          ''delivered'', ''cancelled''}"
    by (simp add: status_values_def)
  let ?entry = "\<lparr>entry_status = new_status, entry_timestamp = clock,
                 entry_note = note_or_default note (''Status updated to '' @ new_status)\<rparr>"
  let ?ord' = "ord\<lparr>status := new_status, status_history := status_history ord @ [?entry]\<rparr>"
  have bad: "new_status \<notin> set status_values \<Longrightarrow>
      patchStatus clock st sess oid new_status note = ((400, Message ''Invalid status''), st)"
    using assms by (simp add: patchStatus_def)
  have good: "new_status \<in> set status_values \<Longrightarrow>
      patchStatus clock st sess oid new_status note =
        ((200, OrderUpdated ''Order status updated successfully'' ?ord'), Order_save ?ord' st)"
    using assms by (simp add: patchStatus_def Let_def)
  have stored: "Order_findById (Order_save ?ord' st) oid = Some ?ord'"
    using assms(2) by (rule Order_findById_save) simp
  have frame: "users (Order_save ?ord' st) = users st \<and>
      length (orders (Order_save ?ord' st)) = length (orders st)"
    by (simp add: Order_save_def)
  show ?thesis
    unfolding vals [symmetric]
    using bad good stored frame by (intro conjI impI exI [of _ ?entry] exI [of _ "Order_save ?ord' st"]) simp_all
qed

lemma sample_o2: "Order_findById sample_store ''o2'' = Some (sample_order ''o2'' ''bob'' ''delivered'')"
  by (simp add: Order_findById_def sample_store_def sample_order_def)

theorem patchStatus_any_listed_status_witness:
  "adminOnly sample_store (Some ''root'') = Inr (sample_user ''root'' ''admin'') \<and>
   Order_findById sample_store ''o2'' = Some (sample_order ''o2'' ''bob'' ''delivered'') \<and>
   patchStatus sample_clock sample_store (Some ''root'') ''o2'' ''shipped'' None =
     ((400, Message ''Invalid status''), sample_store) \<and>
   (\<exists>entry st'. patchStatus sample_clock sample_store (Some ''root'') ''o2'' ''confirmed'' None =
      ((200, OrderUpdated ''Order status updated successfully''
          ((sample_order ''o2'' ''bob'' ''delivered'')
             \<lparr>status := ''confirmed'',
              status_history := status_history (sample_order ''o2'' ''bob'' ''delivered'') @ [entry]\<rparr>)),
       st'))"
proof -
  note t = patchStatus_any_listed_status [OF sample_root sample_o2, of _ sample_clock None]
  have a: "patchStatus sample_clock sample_store (Some ''root'') ''o2'' ''shipped'' None =
     ((400, Message ''Invalid status''), sample_store)"
    using t [of "''shipped''"] by simp
  have b: "\<exists>entry st'. patchStatus sample_clock sample_store (Some ''root'') ''o2'' ''confirmed'' None =
      ((200, OrderUpdated ''Order status updated successfully''
          ((sample_order ''o2'' ''bob'' ''delivered'')
             \<lparr>status := ''confirmed'',
              status_history := status_history (sample_order ''o2'' ''bob'' ''delivered'') @ [entry]\<rparr>)),
       st')"
    using t [of "''confirmed''"] by blast
  show ?thesis using sample_root sample_o2 a b by blast
qed

section \<open>The cap on active orders\<close>

lemma createOrder_below_cap:
  "\<not> 5 \<le> activeOrdersCount st uid \<Longrightarrow> fst (createOrder deps e st uid req) \<noteq> (400, OrderLimitReached msg k)"
  by (auto simp: createOrder_def Let_def split: option.splits if_splits)

text \<open>
  C3: for a customer session, the active orders counted are the customer's orders whose
  status is neither delivered nor cancelled; with five or more of them \<open>POST /\<close> answers
  400 with the order-limit body and the count, and changes nothing; with fewer than
  five it never answers with the order-limit body.
\<close>

theorem order_cap_five_active:
  assumes "userOnly st sess = Inr u"
  shows "activeOrdersCount st (user_id u) =
           length (filter (\<lambda>ord. customer ord = user_id u \<and> status ord \<noteq> ''delivered'' \<and>
                                  status ord \<noteq> ''cancelled'') (orders st)) \<and>
         (5 \<le> activeOrdersCount st (user_id u) \<longrightarrow>
            postOrder deps e st sess req =
              ((400, OrderLimitReached order_limit_message (activeOrdersCount st (user_id u))), st)) \<and>
         (activeOrdersCount st (user_id u) < 5 \<longrightarrow>
            (\<forall>msg k. fst (postOrder deps e st sess req) \<noteq> (400, OrderLimitReached msg k)))"
proof -
  have route: "postOrder deps e st sess req = createOrder deps e st (user_id u) req"
    using assms by (simp add: postOrder_def)
  have count: "activeOrdersCount st (user_id u) =
           length (filter (\<lambda>ord. customer ord = user_id u \<and> status ord \<noteq> ''delivered'' \<and>
                                  status ord \<noteq> ''cancelled'') (orders st))"
    by (simp add: activeOrdersCount_def)
  have reached: "5 \<le> activeOrdersCount st (user_id u) \<longrightarrow>
            postOrder deps e st sess req =
              ((400, OrderLimitReached order_limit_message (activeOrdersCount st (user_id u))), st)"
    unfolding route by (simp add: createOrder_def)
  have below: "activeOrdersCount st (user_id u) < 5 \<longrightarrow>
            (\<forall>msg k. fst (postOrder deps e st sess req) \<noteq> (400, OrderLimitReached msg k))"
    unfolding route using createOrder_below_cap [of st "user_id u" deps e req] by auto
  from count reached below show ?thesis by blast
qed

lemma alice_four: "userOnly four_active (Some ''alice'') = Inr (sample_user ''alice'' ''customer'')"
  by (simp add: userOnly_def User_findById_def four_active_def sample_store_def sample_user_def)

lemma alice_five: "userOnly five_active (Some ''alice'') = Inr (sample_user ''alice'' ''customer'')"
  by (simp add: userOnly_def User_findById_def five_active_def four_active_def sample_store_def sample_user_def)

lemma count_four: "activeOrdersCount four_active ''alice'' = 4"
  by (simp add: activeOrdersCount_def four_active_def sample_store_def sample_order_def)

lemma count_five: "activeOrdersCount five_active ''alice'' = 5"
  by (simp add: activeOrdersCount_def five_active_def four_active_def sample_store_def sample_order_def)

theorem order_cap_five_active_witness:
  "userOnly five_active (Some ''alice'') = Inr (sample_user ''alice'' ''customer'') \<and>
   userOnly four_active (Some ''alice'') = Inr (sample_user ''alice'' ''customer'') \<and>
   postOrder (sample_deps 10) sample_env five_active (Some ''alice'') (sample_request 20 2 22) =
     ((400, OrderLimitReached order_limit_message 5), five_active) \<and>
   fst (postOrder (sample_deps 10) sample_env four_active (Some ''alice'') (sample_request 20 2 22)) \<noteq>
     (400, OrderLimitReached order_limit_message 4)"
proof -
  have uid: "user_id (sample_user ''alice'' ''customer'') = ''alice''"
    by (simp add: sample_user_def)
  have five: "postOrder (sample_deps 10) sample_env five_active (Some ''alice'') (sample_request 20 2 22) =
     ((400, OrderLimitReached order_limit_message 5), five_active)"
    using order_cap_five_active [OF alice_five, of "sample_deps 10" sample_env "sample_request 20 2 22"]
    by (simp add: uid count_five)
  have four: "fst (postOrder (sample_deps 10) sample_env four_active (Some ''alice'') (sample_request 20 2 22)) \<noteq>
     (400, OrderLimitReached order_limit_message 4)"
    using order_cap_five_active [OF alice_four, of "sample_deps 10" sample_env "sample_request 20 2 22"]
    by (simp add: uid count_four)
  show ?thesis using alice_five alice_four five four by blast
qed

lemma sample_product_id_valid: "match_hex 24 ''64b7f0a1c2d3e4f5a6b7c8d9''"
  by code_simp

section \<open>Price validation before persistence\<close>

lemma check_items_differs:
  "check_items (catalog deps) xs = Some (es, sub) \<Longrightarrow> item \<in> set xs \<Longrightarrow> price_differs deps item \<Longrightarrow>
   es \<noteq> []"
proof (induction xs arbitrary: es sub)
  case Nil
  then show ?case by simp
next
  case (Cons x xs)
  then show ?case
    by (auto simp: price_differs_def listed_price_def
             split: option.splits catalog_reply.splits if_splits)
qed

lemma check_items_mismatch_listed:
  "check_items (catalog deps) xs = Some (es, sub) \<Longrightarrow> item \<in> set xs \<Longrightarrow>
   product_ref item = Some pid \<Longrightarrow> catalog deps pid = Listed p \<Longrightarrow> product_available p \<Longrightarrow>
   price item \<noteq> product_price p \<Longrightarrow> PriceMismatch pid \<in> set es"
proof (induction xs arbitrary: es sub)
  case Nil
  then show ?case by simp
next
  case (Cons x xs)
  then show ?case
    by (auto split: option.splits catalog_reply.splits if_splits)
qed


lemma validateOrder_differs:
  assumes "validateOrder deps req = Some v" and "item \<in> set (req_items req)"
    and "price_differs deps item"
  shows "\<not> isValid v \<and> errors v \<noteq> []"
  using assms check_items_differs [of deps "req_items req" _ _ item]
  by (auto simp: validateOrder_def Let_def split: option.splits prod.splits)

lemma validateOrder_itemized:
  assumes "validateOrder deps req = Some v" and "item \<in> set (req_items req)"
    and "product_ref item = Some pid" and "catalog deps pid = Listed p"
    and "product_available p" and "price item \<noteq> product_price p"
  shows "PriceMismatch pid \<in> set (errors v)"
proof -
  from assms(1) obtain es sub where
    c: "check_items (catalog deps) (req_items req) = Some (es, sub)"
    and "set es \<subseteq> set (errors v)"
    by (auto simp: validateOrder_def Let_def split: option.splits prod.splits)
  with check_items_mismatch_listed [OF c assms(2-6)] show ?thesis by blast
qed


lemma createOrder_tampered:
  assumes "item \<in> set (req_items req)" and "price_differs deps item"
  shows "snd (createOrder deps e st uid req) = st \<and> fst (fst (createOrder deps e st uid req)) \<in> {400, 500}"
proof (cases "validateOrder deps req")
  case None
  then show ?thesis
    by (simp add: createOrder_def split: option.splits)
next
  case (Some v)
  with assms have "\<not> isValid v" using validateOrder_differs by blast
  with Some show ?thesis
    by (simp add: createOrder_def split: option.splits)
qed


text \<open>
  C1, as amended: when some submitted line's price differs from the catalog's price of
  its product, \<open>POST /\<close> persists nothing and answers with an error status. The answer is
  the 400 "validation failed" body with a non-empty error list when the request comes
  from a customer session below the cap of five active orders, all its product ids are
  well formed and the catalog can be read; the cap check and the id check run before the
  validator and answer with their own 400 bodies.
\<close>

theorem tampered_price_rejected_unpersisted:
  assumes "item \<in> set (req_items req)" and "price_differs deps item"
  shows "snd (postOrder deps e st sess req) = st \<and>
         fst (fst (postOrder deps e st sess req)) \<in> {400, 401, 403, 500} \<and>
         (\<forall>u v. userOnly st sess = Inr u \<and> activeOrdersCount st (user_id u) < 5 \<and>
                (\<forall>i\<in>set (req_items req). ObjectId_isValid deps (product_ref i)) \<and>
                validateOrder deps req = Some v \<longrightarrow>
                errors v \<noteq> [] \<and>
                (\<forall>pid p. product_ref item = Some pid \<and> catalog deps pid = Listed p \<and>
                        product_available p \<longrightarrow> PriceMismatch pid \<in> set (errors v)) \<and>
                postOrder deps e st sess req =
                  ((400, ValidationFailed
                      ''Order validation failed. Prices may have changed or there was an error.''
                      (errors v)), st))"
proof -
  have unchanged: "snd (postOrder deps e st sess req) = st"
    using createOrder_tampered [OF assms]
    by (auto simp: postOrder_def split: sum.splits)
  have code: "fst (fst (postOrder deps e st sess req)) \<in> {400, 401, 403, 500}"
  proof (cases "userOnly st sess")
    case (Inl denied)
    then have "fst denied \<in> {401, 403}"
      by (auto simp: userOnly_def split: option.splits if_splits)
    with Inl show ?thesis by (auto simp: postOrder_def)
  next
    case (Inr u)
    then show ?thesis
      using createOrder_tampered [OF assms, of e st "user_id u"] by (auto simp: postOrder_def)
  qed
  have failed: "\<forall>u v. userOnly st sess = Inr u \<and> activeOrdersCount st (user_id u) < 5 \<and>
                (\<forall>i\<in>set (req_items req). ObjectId_isValid deps (product_ref i)) \<and>
                validateOrder deps req = Some v \<longrightarrow>
                errors v \<noteq> [] \<and>
                (\<forall>pid p. product_ref item = Some pid \<and> catalog deps pid = Listed p \<and>
                        product_available p \<longrightarrow> PriceMismatch pid \<in> set (errors v)) \<and>
                postOrder deps e st sess req =
                  ((400, ValidationFailed
                      ''Order validation failed. Prices may have changed or there was an error.''
                      (errors v)), st)"
  proof (intro allI impI)
    fix u v
    assume h: "userOnly st sess = Inr u \<and> activeOrdersCount st (user_id u) < 5 \<and>
                (\<forall>i\<in>set (req_items req). ObjectId_isValid deps (product_ref i)) \<and>
                validateOrder deps req = Some v"
    then have ids: "find (\<lambda>i. \<not> ObjectId_isValid deps (product_ref i)) (req_items req) = None"
      by (simp add: find_None_iff_all)
    from h assms have inv: "\<not> isValid v \<and> errors v \<noteq> []"
      using validateOrder_differs by blast
    have listed: "\<forall>pid p. product_ref item = Some pid \<and> catalog deps pid = Listed p \<and>
                        product_available p \<longrightarrow> PriceMismatch pid \<in> set (errors v)"
    proof (intro allI impI)
      fix pid p
      assume l: "product_ref item = Some pid \<and> catalog deps pid = Listed p \<and> product_available p"
      with assms(2) have "price item \<noteq> product_price p"
        by (simp add: price_differs_def listed_price_def)
      with h l assms(1) show "PriceMismatch pid \<in> set (errors v)"
        using validateOrder_itemized by blast
    qed
    from h ids inv listed show "errors v \<noteq> [] \<and>
                (\<forall>pid p. product_ref item = Some pid \<and> catalog deps pid = Listed p \<and>
                        product_available p \<longrightarrow> PriceMismatch pid \<in> set (errors v)) \<and>
                postOrder deps e st sess req =
                  ((400, ValidationFailed
                      ''Order validation failed. Prices may have changed or there was an error.''
                      (errors v)), st)"
      by (simp add: postOrder_def createOrder_def)
  qed
  from unchanged code failed show ?thesis by blast
qed

lemma tampered_item: "price_differs (sample_deps 12) sample_item"
  by (simp add: price_differs_def listed_price_def sample_deps_def sample_item_def product_ref_def
      sample_product_id_def)

lemma tampered_validation:
  "validateOrder (sample_deps 12) (sample_request 20 2 22) =
     Some \<lparr>isValid = False, errors = [PriceMismatch sample_product_id, TotalMismatch]\<rparr>"
  by (simp add: validateOrder_def sample_request_def sample_deps_def sample_item_def product_ref_def
      expected_delivery_fee_def epsilon_def Let_def sample_product_id_def)

theorem tampered_price_rejected_unpersisted_witness:
  "sample_item \<in> set (req_items (sample_request 20 2 22)) \<and>
   price_differs (sample_deps 12) sample_item \<and>
   postOrder (sample_deps 12) sample_env four_active (Some ''alice'') (sample_request 20 2 22) =
     ((400, ValidationFailed
         ''Order validation failed. Prices may have changed or there was an error.''
         [PriceMismatch sample_product_id, TotalMismatch]), four_active)"
proof -
  have i: "sample_item \<in> set (req_items (sample_request 20 2 22))"
    by (simp add: sample_request_def)
  have uid: "user_id (sample_user ''alice'' ''customer'') = ''alice''"
    by (simp add: sample_user_def)
  have ids: "\<forall>i\<in>set (req_items (sample_request 20 2 22)).
      ObjectId_isValid (sample_deps 12) (product_ref i)"
    by (simp add: sample_request_def sample_deps_def sample_item_def product_ref_def
        sample_product_id_def sample_product_id_valid)
  from tampered_price_rejected_unpersisted [OF i tampered_item, of sample_env four_active "Some ''alice''"]
  have "postOrder (sample_deps 12) sample_env four_active (Some ''alice'') (sample_request 20 2 22) =
     ((400, ValidationFailed
         ''Order validation failed. Prices may have changed or there was an error.''
         [PriceMismatch sample_product_id, TotalMismatch]), four_active)"
    using alice_four ids tampered_validation by (simp add: uid count_four)
  with i tampered_item show ?thesis by blast
qed

text \<open>
  C1 as stated fails: a customer with five active orders who submits a tampered price is
  answered by the cap check, not by the validator.
\<close>

theorem tampered_price_at_cap_counterexample:
  "\<not> (\<forall>deps e st sess u req.
        userOnly st sess = Inr u \<longrightarrow> (\<exists>item\<in>set (req_items req). price_differs deps item) \<longrightarrow>
        (\<exists>msg errs. postOrder deps e st sess req = ((400, ValidationFailed msg errs), st)))"
proof
  assume claim: "\<forall>deps e st sess u req.
        userOnly st sess = Inr u \<longrightarrow> (\<exists>item\<in>set (req_items req). price_differs deps item) \<longrightarrow>
        (\<exists>msg errs. postOrder deps e st sess req = ((400, ValidationFailed msg errs), st))"
  have "\<exists>item\<in>set (req_items (sample_request 20 2 22)). price_differs (sample_deps 12) item"
    using tampered_item by (simp add: sample_request_def)
  with claim alice_five
  have "\<exists>msg errs. postOrder (sample_deps 12) sample_env five_active (Some ''alice'')
          (sample_request 20 2 22) = ((400, ValidationFailed msg errs), five_active)"
    by blast
  moreover have "postOrder (sample_deps 12) sample_env five_active (Some ''alice'')
          (sample_request 20 2 22) = ((400, OrderLimitReached order_limit_message 5), five_active)"
    unfolding postOrder_def alice_five
    by (simp add: createOrder_def sample_user_def count_five)
  ultimately show False by simp
qed

lemma saveCard_orders: "saveCard e uid info st = Some st' \<Longrightarrow> orders st' = orders st"
  by (auto simp: saveCard_def User_save_def split: option.splits if_splits)

lemma createOrder_accepted:
  assumes "createOrder deps e st uid req = ((201, b), st')"
  shows "\<exists>v addr. validateOrder deps req = Some v \<and> isValid v \<and>
           orders st' = orders st @ [newOrder e uid req addr]"
proof -
  from assms obtain v where v: "validateOrder deps req = Some v" "isValid v"
    by (auto simp: createOrder_def Let_def split: option.splits if_splits)
  from assms v obtain addr st1 where "st1 = Order_insert (newOrder e uid req addr) st"
    and "st' = st1 \<or> (\<exists>info. saveCard e uid info st1 = Some st')"
    by (auto simp: createOrder_def Let_def split: option.splits if_splits)
  then have "orders st' = orders st @ [newOrder e uid req addr]"
    by (auto simp: Order_insert_def dest: saveCard_orders)
  with v show ?thesis by blast
qed



text \<open>The first example of the spec: a correct order below the cap is accepted.\<close>

lemma sample_checkout_accepted:
  "postOrder (sample_deps 10) sample_env four_active (Some ''alice'') (sample_request 20 2 22) =
     ((201, OrderPlaced ''Order placed successfully'' ''o9'' ''ORD-20241027-5500''),
      Order_insert (newOrder sample_env ''alice'' (sample_request 20 2 22)
                      (Some (Structured (address_of_info sample_info)))) four_active)"
proof -
  have v: "validateOrder (sample_deps 10) (sample_request 20 2 22) =
      Some \<lparr>isValid = True, errors = []\<rparr>"
    by (simp add: validateOrder_def sample_request_def sample_deps_def sample_item_def
        product_ref_def expected_delivery_fee_def epsilon_def Let_def sample_product_id_def)
  have ids: "find (\<lambda>item. \<not> ObjectId_isValid (sample_deps 10) (product_ref item))
      (req_items (sample_request 20 2 22)) = None"
    by (simp add: sample_request_def sample_deps_def sample_item_def product_ref_def
        sample_product_id_def sample_product_id_valid)
  have n: "order_number (newOrder sample_env ''alice'' (sample_request 20 2 22)
                      (Some (Structured (address_of_info sample_info)))) = ''ORD-20241027-5500''"
    by (simp add: newOrder_def sample_env_def checkout_order_number_def dateStr_def
        toISOString_def sample_clock_def pad_def random_suffix_def show_int_def digit_char_def
        show_nat.simps)
  have i: "order_oid (newOrder sample_env ''alice'' (sample_request 20 2 22)
                      (Some (Structured (address_of_info sample_info)))) = ''o9''"
    by (simp add: newOrder_def sample_env_def)
  have r: "req_promoCode (sample_request 20 2 22) = None \<and>
      req_deliveryType (sample_request 20 2 22) = ''delivery'' \<and>
      req_deliveryInfo (sample_request 20 2 22) = Some sample_info \<and>
      req_paymentInfo (sample_request 20 2 22) = None"
    by (simp add: sample_request_def)
  show ?thesis
    unfolding postOrder_def alice_four
    by (simp add: createOrder_def count_four sample_user_def v ids n i r)
qed

text \<open>
  The same order stating a subtotal and a delivery fee of zero is refused by the
  validator, and nothing is stored.
\<close>

lemma sample_inconsistent_amounts_rejected:
  "postOrder (sample_deps 10) sample_env four_active (Some ''alice'') (sample_request 0 0 22) =
     ((400, ValidationFailed
         ''Order validation failed. Prices may have changed or there was an error.''
         [TotalMismatch]), four_active)"
proof -
  have v: "validateOrder (sample_deps 10) (sample_request 0 0 22) =
      Some \<lparr>isValid = False, errors = [TotalMismatch]\<rparr>"
    by (simp add: validateOrder_def sample_request_def sample_deps_def sample_item_def
        product_ref_def expected_delivery_fee_def epsilon_def Let_def sample_product_id_def)
  have ids: "find (\<lambda>item. \<not> ObjectId_isValid (sample_deps 10) (product_ref item))
      (req_items (sample_request 0 0 22)) = None"
    by (simp add: sample_request_def sample_deps_def sample_item_def product_ref_def
        sample_product_id_def sample_product_id_valid)
  show ?thesis
    unfolding postOrder_def alice_four
    by (simp add: createOrder_def count_four sample_user_def v ids)
qed

lemma sample_manual_entry_accepted:
  "fst (fst (adminCreateOrder (sample_deps 10) sample_env sample_store (Some ''root'')
               sample_admin_request)) = 201"
proof -
  have v: "validateOrder (sample_deps 10) sample_admin_request =
      Some \<lparr>isValid = True, errors = []\<rparr>"
    by (simp add: validateOrder_def sample_admin_request_def sample_deps_def sample_item_def
        product_ref_def expected_delivery_fee_def epsilon_def Let_def sample_product_id_def)
  have ids: "find (\<lambda>item. \<not> ObjectId_isValid (sample_deps 10) (product_ref item))
      (req_items sample_admin_request) = None"
    by (simp add: sample_admin_request_def sample_deps_def sample_item_def product_ref_def
        sample_product_id_def sample_product_id_valid)
  have c: "User_findById sample_store ''alice'' = Some (sample_user ''alice'' ''customer'')"
    by (simp add: User_findById_def sample_store_def sample_user_def)
  have r: "req_customerId sample_admin_request = Some ''alice'' \<and>
      req_items sample_admin_request \<noteq> [] \<and> req_total sample_admin_request = 22"
    by (simp add: sample_admin_request_def)
  show ?thesis
    unfolding adminCreateOrder_def sample_root
    by (simp add: falsy_def or_default_def r c ids v Let_def)
qed


section \<open>Order numbers\<close>

lemma digit_char_digit: "d < 10 \<Longrightarrow> is_digit (digit_char d)"
proof -
  assume "d < 10"
  then have "d < length ''0123456789''" by simp
  then have "''0123456789'' ! d \<in> set ''0123456789''" by (rule nth_mem)
  then show ?thesis by (simp only: digit_char_def is_digit_def)
qed

lemma show_nat_digits: "list_all is_digit (show_nat n)"
proof (induction n rule: show_nat.induct)
  case (1 n)
  show ?case
  proof (cases "n < 10")
    case True
    then show ?thesis by (subst show_nat.simps) (simp add: digit_char_digit)
  next
    case False
    with 1 show ?thesis by (subst show_nat.simps) (simp add: digit_char_digit)
  qed
qed

lemma show_nat_length1: "n < 10 \<Longrightarrow> length (show_nat n) = 1"
  by (subst show_nat.simps) simp

lemma show_nat_length2: "10 \<le> n \<Longrightarrow> n < 100 \<Longrightarrow> length (show_nat n) = 2"
  by (subst show_nat.simps) (simp add: show_nat_length1)

lemma show_nat_length3: "100 \<le> n \<Longrightarrow> n < 1000 \<Longrightarrow> length (show_nat n) = 3"
  by (subst show_nat.simps) (simp add: show_nat_length2)

lemma show_nat_length4: "1000 \<le> n \<Longrightarrow> n < 10000 \<Longrightarrow> length (show_nat n) = 4"
  by (subst show_nat.simps) (simp add: show_nat_length3)

lemma show_nat_length_le4: "n < 10000 \<Longrightarrow> length (show_nat n) \<le> 4"
  using show_nat_length1 [of n] show_nat_length2 [of n] show_nat_length3 [of n]
    show_nat_length4 [of n]
  by (cases "n < 10"; cases "n < 100"; cases "n < 1000") simp_all

lemma show_nat_length_le2: "n < 100 \<Longrightarrow> length (show_nat n) \<le> 2"
  using show_nat_length1 [of n] show_nat_length2 [of n]
  by (cases "n < 10") simp_all

lemma pad_length: "length (show_nat n) \<le> w \<Longrightarrow> length (pad w n) = w"
  by (simp add: pad_def)

lemma pad_digits: "list_all is_digit (pad w n)"
proof -
  have "list_all is_digit (replicate (w - length (show_nat n)) (CHR ''0''))"
    by (simp add: list_all_iff is_digit_def)
  then show ?thesis
    by (simp add: pad_def show_nat_digits)
qed

lemma digits_no_dash: "list_all is_digit s \<Longrightarrow> filter (\<lambda>c. c \<noteq> CHR ''-'') s = s"
  by (induction s) (auto simp: is_digit_def)

lemma dateStr_digits:
  assumes "year d \<le> 9999" and "month d \<le> 12" and "day d \<le> 31"
  shows "dateStr d = pad 4 (year d) @ pad 2 (month d) @ pad 2 (day d)"
proof -
  have y: "length (pad 4 (year d)) = 4"
    using assms(1) by (intro pad_length show_nat_length_le4) simp
  have m: "length (pad 2 (month d)) = 2"
    using assms(2) by (intro pad_length show_nat_length_le2) simp
  have dd: "length (pad 2 (day d)) = 2"
    using assms(3) by (intro pad_length show_nat_length_le2) simp
  have "take 10 (toISOString d) =
      pad 4 (year d) @ ''-'' @ pad 2 (month d) @ ''-'' @ pad 2 (day d)"
    using assms(1) by (simp add: toISOString_def y m dd)
  then show ?thesis
    by (simp add: dateStr_def digits_no_dash pad_digits)
qed

lemma random_suffix_range:
  assumes "0 \<le> r" and "r < 1"
  shows "1000 \<le> random_suffix r \<and> random_suffix r \<le> 9999"
proof -
  have "1000 \<le> 1000 + r * 9000" using assms(1) by simp
  then have lo: "1000 \<le> random_suffix r"
    unfolding random_suffix_def by (simp add: le_floor_iff)
  have "1000 + r * 9000 < 10000" using assms(2) by simp
  then have "random_suffix r < 10000"
    unfolding random_suffix_def by (simp add: floor_less_iff)
  with lo show ?thesis by simp
qed

lemma checkout_order_number_form:
  assumes "year d \<le> 9999" and "month d \<le> 12" and "day d \<le> 31" and "0 \<le> r" and "r < 1"
  shows "checkout_form (checkout_order_number d r)"
proof -
  have y: "length (pad 4 (year d)) = 4"
    using assms(1) by (intro pad_length show_nat_length_le4) simp
  have m: "length (pad 2 (month d)) = 2"
    using assms(2) by (intro pad_length show_nat_length_le2) simp
  have dd: "length (pad 2 (day d)) = 2"
    using assms(3) by (intro pad_length show_nat_length_le2) simp
  from random_suffix_range [OF assms(4,5)]
  have s: "show_int (random_suffix r) = show_nat (nat (random_suffix r))"
    and n: "1000 \<le> nat (random_suffix r)" "nat (random_suffix r) < 10000"
    by (auto simp: show_int_def)
  have l: "length (show_nat (nat (random_suffix r))) = 4"
    using n by (rule show_nat_length4)
  show ?thesis
    unfolding checkout_form_def checkout_order_number_def dateStr_digits [OF assms(1-3)] s
    by (simp add: y m dd l pad_digits show_nat_digits)
qed


lemma adminCreateOrder_number:
  assumes "adminCreateOrder deps e st sess req = ((201, b), st')"
  shows "\<exists>ord. orders st' = orders st @ [ord] \<and>
           order_number ord = admin_order_number (now e) (length (orders st))"
  using assms
  by (auto simp: adminCreateOrder_def Let_def Order_insert_def adminOnly_def
           split: option.splits if_splits sum.splits)

text \<open>
  What each route assigns: with a clock reading of a year up to 9999 and a random draw in
  \<open>[0, 1)\<close>, an order accepted by customer checkout is stored with the number
  \<open>ORD-\<close>, the eight digits of the UTC date, a dash and the four digits of
  \<open>floor(1000 + 9000 * draw)\<close>, which lies between 1000 and 9999; an order accepted by
  the admin manual entry is stored with \<open>ORD\<close> followed by the epoch milliseconds and
  the number of stored orders plus one.
\<close>

lemma order_numbers_assigned:
  assumes "year (now e) \<le> 9999" and "month (now e) \<le> 12" and "day (now e) \<le> 31"
    and "0 \<le> random e" and "random e < 1"
  shows "(postOrder deps e st sess req = ((201, b), st') \<longrightarrow>
           (\<exists>ord. orders st' = orders st @ [ord] \<and>
                  order_number ord =
                    ''ORD-'' @ pad 4 (year (now e)) @ pad 2 (month (now e)) @ pad 2 (day (now e)) @
                    ''-'' @ show_int \<lfloor>1000 + random e * 9000\<rfloor> \<and>
                  1000 \<le> \<lfloor>1000 + random e * 9000\<rfloor> \<and> \<lfloor>1000 + random e * 9000\<rfloor> \<le> 9999 \<and>
                  checkout_form (order_number ord))) \<and>
         (adminCreateOrder deps e st sess areq = ((201, b), st') \<longrightarrow>
           (\<exists>ord. orders st' = orders st @ [ord] \<and>
                  order_number ord =
                    ''ORD'' @ show_nat (epoch_ms (now e)) @ show_nat (length (orders st) + 1)))"
proof (intro conjI impI)
  assume "postOrder deps e st sess req = ((201, b), st')"
  then obtain u :: user where "createOrder deps e st (user_id u) req = ((201, b), st')"
    by (auto simp: postOrder_def userOnly_def split: sum.splits option.splits if_splits)
  from createOrder_accepted [OF this] obtain addr where
    o: "orders st' = orders st @ [newOrder e (user_id u) req addr]"
    by blast
  have n: "order_number (newOrder e (user_id u) req addr) =
      checkout_order_number (now e) (random e)"
    by (simp add: newOrder_def)
  have f: "checkout_form (checkout_order_number (now e) (random e))"
    using assms by (rule checkout_order_number_form)
  have t: "checkout_order_number (now e) (random e) =
      ''ORD-'' @ pad 4 (year (now e)) @ pad 2 (month (now e)) @ pad 2 (day (now e)) @
      ''-'' @ show_int \<lfloor>1000 + random e * 9000\<rfloor>"
    by (simp add: checkout_order_number_def dateStr_digits [OF assms(1-3)] random_suffix_def)
  from random_suffix_range [OF assms(4,5)] o n f t
  show "\<exists>ord. orders st' = orders st @ [ord] \<and>
                  order_number ord =
                    ''ORD-'' @ pad 4 (year (now e)) @ pad 2 (month (now e)) @ pad 2 (day (now e)) @
                    ''-'' @ show_int \<lfloor>1000 + random e * 9000\<rfloor> \<and>
                  1000 \<le> \<lfloor>1000 + random e * 9000\<rfloor> \<and> \<lfloor>1000 + random e * 9000\<rfloor> \<le> 9999 \<and>
                  checkout_form (order_number ord)"
    by (intro exI [of _ "newOrder e (user_id u) req addr"]) (simp add: random_suffix_def)
next
  assume "adminCreateOrder deps e st sess areq = ((201, b), st')"
  from adminCreateOrder_number [OF this]
  show "\<exists>ord. orders st' = orders st @ [ord] \<and>
                  order_number ord =
                    ''ORD'' @ show_nat (epoch_ms (now e)) @ show_nat (length (orders st) + 1)"
    by (simp add: admin_order_number_def)
qed

lemma sample_env_clock:
  "year (now sample_env) \<le> 9999 \<and> month (now sample_env) \<le> 12 \<and> day (now sample_env) \<le> 31 \<and>
   0 \<le> random sample_env \<and> random sample_env < 1"
  by (simp add: sample_env_def sample_clock_def)

lemma order_numbers_assigned_sample:
  "year (now sample_env) \<le> 9999 \<and> month (now sample_env) \<le> 12 \<and> day (now sample_env) \<le> 31 \<and>
   0 \<le> random sample_env \<and> random sample_env < 1 \<and>
   fst (fst (postOrder (sample_deps 10) sample_env four_active (Some ''alice'')
               (sample_request 20 2 22))) = 201 \<and>
   (\<exists>ord. orders (snd (postOrder (sample_deps 10) sample_env four_active (Some ''alice'')
                         (sample_request 20 2 22))) = orders four_active @ [ord] \<and>
          checkout_form (order_number ord)) \<and>
   fst (fst (adminCreateOrder (sample_deps 10) sample_env sample_store (Some ''root'')
               sample_admin_request)) = 201 \<and>
   (\<exists>ord. orders (snd (adminCreateOrder (sample_deps 10) sample_env sample_store (Some ''root'')
                         sample_admin_request)) = orders sample_store @ [ord] \<and>
          order_number ord =
            ''ORD'' @ show_nat (epoch_ms (now sample_env)) @ show_nat (length (orders sample_store) + 1))"
proof -
  let ?r = "postOrder (sample_deps 10) sample_env four_active (Some ''alice'') (sample_request 20 2 22)"
  let ?a = "adminCreateOrder (sample_deps 10) sample_env sample_store (Some ''root'')
              sample_admin_request"
  note c = sample_env_clock
  have r1: "fst (fst ?r) = 201"
    by (simp add: sample_checkout_accepted)
  then have r: "?r = ((201, snd (fst ?r)), snd ?r)"
    by (metis prod.collapse)
  have a1: "fst (fst ?a) = 201"
    by (rule sample_manual_entry_accepted)
  then have a: "?a = ((201, snd (fst ?a)), snd ?a)"
    by (metis prod.collapse)
  from c have c1: "year (now sample_env) \<le> 9999" and c2: "month (now sample_env) \<le> 12"
    and c3: "day (now sample_env) \<le> 31" and c4: "0 \<le> random sample_env"
    and c5: "random sample_env < 1"
    by simp_all
  from order_numbers_assigned
         [OF c1 c2 c3 c4 c5, of "sample_deps 10" four_active "Some ''alice''"
            "sample_request 20 2 22" "snd (fst ?r)" "snd ?r"] r
  have p: "\<exists>ord. orders (snd ?r) = orders four_active @ [ord] \<and> checkout_form (order_number ord)"
    by blast
  from order_numbers_assigned
         [OF c1 c2 c3 c4 c5, of "sample_deps 10" sample_store "Some ''root''" _
            "snd (fst ?a)" "snd ?a" sample_admin_request] a
  have q: "\<exists>ord. orders (snd ?a) = orders sample_store @ [ord] \<and>
          order_number ord =
            ''ORD'' @ show_nat (epoch_ms (now sample_env)) @ show_nat (length (orders sample_store) + 1)"
    by blast
  from c r1 p a1 q show ?thesis by blast
qed

lemma sample_manual_number:
  "admin_order_number (now sample_env) (length (orders sample_store)) = ''ORD17300000000003''"
  by (simp add: admin_order_number_def sample_env_def sample_clock_def sample_store_def
      show_nat.simps digit_char_def)

lemma sample_checkout_number:
  "checkout_order_number (now sample_env) (random sample_env) = ''ORD-20241027-5500''"
  by (simp add: sample_env_def checkout_order_number_def dateStr_def toISOString_def
      sample_clock_def pad_def random_suffix_def show_int_def digit_char_def show_nat.simps)

lemma same_day_same_number:
  "checkout_order_number (now later_env) (random later_env) =
   checkout_order_number (now sample_env) (random sample_env)"
proof -
  have d: "dateStr (now later_env) = dateStr (now sample_env)"
    by (simp add: dateStr_digits sample_env_def later_env_def sample_clock_def later_clock_def)
  have "random_suffix (random later_env) = 5500"
    by (simp add: random_suffix_def later_env_def floor_eq_iff)
  moreover have "random_suffix (random sample_env) = 5500"
    by (simp add: random_suffix_def sample_env_def)
  ultimately show ?thesis
    by (simp add: checkout_order_number_def d)
qed

text \<open>
  C8 does not hold of the code. Two checkouts at different moments of one day, with
  different random draws, build two documents with different ids and the same order
  number, of the promised form; nothing in the route compares the number with those
  already stored. And the order the admin manual entry stores has a number that is not
  of that form.
\<close>

theorem order_numbers_collide:
  "order_oid (newOrder sample_env ''alice'' (sample_request 20 2 22)
                (Some (Structured (address_of_info sample_info)))) \<noteq>
   order_oid (newOrder later_env ''bob'' (sample_request 20 2 22)
                (Some (Structured (address_of_info sample_info)))) \<and>
   now sample_env \<noteq> now later_env \<and> random sample_env \<noteq> random later_env \<and>
   order_number (newOrder sample_env ''alice'' (sample_request 20 2 22)
                   (Some (Structured (address_of_info sample_info)))) = ''ORD-20241027-5500'' \<and>
   order_number (newOrder later_env ''bob'' (sample_request 20 2 22)
                   (Some (Structured (address_of_info sample_info)))) = ''ORD-20241027-5500'' \<and>
   checkout_form ''ORD-20241027-5500'' \<and>
   (\<exists>b st' ord.
      adminCreateOrder (sample_deps 10) sample_env sample_store (Some ''root'')
        sample_admin_request = ((201, b), st') \<and>
      orders st' = orders sample_store @ [ord] \<and> order_number ord = ''ORD17300000000003'') \<and>
   \<not> checkout_form ''ORD17300000000003''"
proof -
  let ?a = "adminCreateOrder (sample_deps 10) sample_env sample_store (Some ''root'')
              sample_admin_request"
  let ?addr = "Some (Structured (address_of_info sample_info))"
  have ids: "order_oid (newOrder sample_env ''alice'' (sample_request 20 2 22) ?addr) \<noteq>
      order_oid (newOrder later_env ''bob'' (sample_request 20 2 22) ?addr)"
    by (simp add: newOrder_def sample_env_def later_env_def)
  have clocks: "now sample_env \<noteq> now later_env \<and> random sample_env \<noteq> random later_env"
    by (simp add: sample_env_def later_env_def sample_clock_def later_clock_def)
  have n1: "order_number (newOrder sample_env ''alice'' (sample_request 20 2 22) ?addr) =
      ''ORD-20241027-5500''"
    using sample_checkout_number by (simp add: newOrder_def)
  have n2: "order_number (newOrder later_env ''bob'' (sample_request 20 2 22) ?addr) =
      ''ORD-20241027-5500''"
    using sample_checkout_number same_day_same_number by (simp add: newOrder_def)
  have f1: "checkout_form ''ORD-20241027-5500''"
    by (simp add: checkout_form_def is_digit_def)
  have "fst (fst ?a) = 201"
    by (rule sample_manual_entry_accepted)
  then have a: "?a = ((201, snd (fst ?a)), snd ?a)"
    by (metis prod.collapse)
  from adminCreateOrder_number [OF a] obtain ord where
    "orders (snd ?a) = orders sample_store @ [ord]"
    and "order_number ord = ''ORD17300000000003''"
    by (auto simp: sample_manual_number)
  with a have m: "\<exists>b st' ord. ?a = ((201, b), st') \<and>
      orders st' = orders sample_store @ [ord] \<and> order_number ord = ''ORD17300000000003''"
    by blast
  have f2: "\<not> checkout_form ''ORD17300000000003''"
    by (simp add: checkout_form_def)
  from clocks have c1: "now sample_env \<noteq> now later_env"
    and c2: "random sample_env \<noteq> random later_env" by simp_all
  show ?thesis
    by (rule conjI [OF ids conjI [OF c1 conjI [OF c2 conjI [OF n1 conjI [OF n2
          conjI [OF f1 conjI [OF m f2]]]]]]])
qed

section \<open>Admins as targets of user management\<close>

text \<open>
  C4, as amended: when the caller is an admin and the target is another user whose role
  is admin, blocking and deleting are answered with 400 and a message (for a well-formed
  reason: "Cannot block admin users"; "Cannot delete admin users") and the store is left
  as it was; unblocking is answered with 400 "User is not blocked" and no change when the
  target is not blocked, and when the target is blocked it succeeds with 200 and clears
  the block.
\<close>

theorem admin_target_protected:
  assumes "adminOnly st sess = Inr admin" and "User_findById st target = Some u"
    and "role u = ''admin''" and "target \<noteq> user_id admin"
  shows "(\<exists>b. blockUser trim clock st sess target reason = ((400, b), st)) \<and>
         ((case reason of None \<Rightarrow> True | Some r \<Rightarrow> isLength 5 500 (trim r)) \<longrightarrow>
            blockUser trim clock st sess target reason =
              ((400, Message ''Cannot block admin users''), st)) \<and>
         deleteUser st sess target = ((400, Message ''Cannot delete admin users''), st) \<and>
         (\<not> is_blocked u \<longrightarrow>
            unblockUser st sess target = ((400, Message ''User is not blocked''), st)) \<and>
         (is_blocked u \<longrightarrow>
            unblockUser st sess target =
              ((200, UserSummary ''User unblocked successfully''
                  (u\<lparr>is_blocked := False, blocked_reason := None, blocked_at := None,
                     blocked_by := None\<rparr>)),
               User_save (u\<lparr>is_blocked := False, blocked_reason := None, blocked_at := None,
                            blocked_by := None\<rparr>) st))"
proof -
  have b1: "\<exists>b. blockUser trim clock st sess target reason = ((400, b), st)"
    using assms by (auto simp: blockUser_def Let_def split: option.splits)
  have b2: "(case reason of None \<Rightarrow> True | Some r \<Rightarrow> isLength 5 500 (trim r)) \<longrightarrow>
            blockUser trim clock st sess target reason =
              ((400, Message ''Cannot block admin users''), st)"
    using assms by (auto simp: blockUser_def Let_def split: option.splits)
  have d: "deleteUser st sess target = ((400, Message ''Cannot delete admin users''), st)"
    using assms by (simp add: deleteUser_def)
  have u1: "\<not> is_blocked u \<longrightarrow>
            unblockUser st sess target = ((400, Message ''User is not blocked''), st)"
    using assms by (simp add: unblockUser_def)
  have u2: "is_blocked u \<longrightarrow>
            unblockUser st sess target =
              ((200, UserSummary ''User unblocked successfully''
                  (u\<lparr>is_blocked := False, blocked_reason := None, blocked_at := None,
                     blocked_by := None\<rparr>)),
               User_save (u\<lparr>is_blocked := False, blocked_reason := None, blocked_at := None,
                            blocked_by := None\<rparr>) st)"
    using assms by (simp add: unblockUser_def Let_def)
  from b1 b2 d u1 u2 show ?thesis by blast
qed

lemma blocked_admin_store_root:
  "adminOnly blocked_admin_store (Some ''root'') = Inr (sample_user ''root'' ''admin'')"
  by (simp add: adminOnly_def User_findById_def blocked_admin_store_def sample_store_def sample_user_def
      blocked_def)

lemma blocked_admin_store_boss:
  "User_findById blocked_admin_store ''boss'' = Some (blocked (sample_user ''boss'' ''admin''))"
  by (simp add: User_findById_def blocked_admin_store_def sample_store_def sample_user_def blocked_def)

lemma sample_store_boss:
  "User_findById sample_store ''boss'' = Some (sample_user ''boss'' ''admin'')"
  by (simp add: User_findById_def sample_store_def sample_user_def)

lemma unblock_blocked_admin:
  "unblockUser blocked_admin_store (Some ''root'') ''boss'' =
     ((200, UserSummary ''User unblocked successfully'' (sample_user ''boss'' ''admin'')),
      sample_store)"
proof -
  have u: "(blocked (sample_user ''boss'' ''admin''))
             \<lparr>is_blocked := False, blocked_reason := None, blocked_at := None, blocked_by := None\<rparr> =
           sample_user ''boss'' ''admin''"
    by (simp add: blocked_def sample_user_def)
  have s: "User_save (sample_user ''boss'' ''admin'') blocked_admin_store = sample_store"
    by (simp add: User_save_def blocked_admin_store_def sample_store_def sample_user_def blocked_def)
  have b: "is_blocked (blocked (sample_user ''boss'' ''admin''))"
    by (simp add: blocked_def)
  show ?thesis
    unfolding unblockUser_def blocked_admin_store_root
    by (simp add: blocked_admin_store_boss Let_def b u s)
qed

theorem admin_target_protected_witness:
  "adminOnly sample_store (Some ''root'') = Inr (sample_user ''root'' ''admin'') \<and>
   User_findById sample_store ''boss'' = Some (sample_user ''boss'' ''admin'') \<and>
   blockUser sample_trim sample_clock sample_store (Some ''root'') ''boss''
       (Some ''Abusive language'') =
     ((400, Message ''Cannot block admin users''), sample_store) \<and>
   deleteUser sample_store (Some ''root'') ''boss'' =
     ((400, Message ''Cannot delete admin users''), sample_store) \<and>
   unblockUser sample_store (Some ''root'') ''boss'' =
     ((400, Message ''User is not blocked''), sample_store) \<and>
   unblockUser blocked_admin_store (Some ''root'') ''boss'' =
     ((200, UserSummary ''User unblocked successfully'' (sample_user ''boss'' ''admin'')),
      sample_store)"
proof -
  have r: "role (sample_user ''boss'' ''admin'') = ''admin'' \<and>
      ''boss'' \<noteq> user_id (sample_user ''root'' ''admin'') \<and>
      \<not> is_blocked (sample_user ''boss'' ''admin'')"
    by (simp add: sample_user_def)
  have len: "isLength 5 500 (sample_trim ''Abusive language'')"
    by (simp add: isLength_def sample_trim_def white_space_def)
  from r have r1: "role (sample_user ''boss'' ''admin'') = ''admin''"
    and r2: "''boss'' \<noteq> user_id (sample_user ''root'' ''admin'')" by simp_all
  note t = admin_target_protected [OF sample_root sample_store_boss r1 r2,
      of sample_trim sample_clock "Some ''Abusive language''"]
  have b: "blockUser sample_trim sample_clock sample_store (Some ''root'') ''boss''
      (Some ''Abusive language'') =
     ((400, Message ''Cannot block admin users''), sample_store)"
    using t len by simp
  have d: "deleteUser sample_store (Some ''root'') ''boss'' =
     ((400, Message ''Cannot delete admin users''), sample_store)"
    using t by simp
  have u: "unblockUser sample_store (Some ''root'') ''boss'' =
     ((400, Message ''User is not blocked''), sample_store)"
    using t r by simp
  from sample_root sample_store_boss b d u unblock_blocked_admin show ?thesis by blast
qed

text \<open>
  C4 as stated fails: one admin unblocks another, blocked admin; the answer is 200 and
  the target's record changes.
\<close>

theorem unblock_admin_counterexample:
  "\<not> (\<forall>st sess admin target u.
        adminOnly st sess = Inr admin \<longrightarrow> User_findById st target = Some u \<longrightarrow>
        role u = ''admin'' \<longrightarrow> target \<noteq> user_id admin \<longrightarrow>
        (\<exists>b. unblockUser st sess target = ((400, b), st)))"
proof
  assume claim: "\<forall>st sess admin target u.
        adminOnly st sess = Inr admin \<longrightarrow> User_findById st target = Some u \<longrightarrow>
        role u = ''admin'' \<longrightarrow> target \<noteq> user_id admin \<longrightarrow>
        (\<exists>b. unblockUser st sess target = ((400, b), st))"
  have "role (blocked (sample_user ''boss'' ''admin'')) = ''admin'' \<and>
      ''boss'' \<noteq> user_id (sample_user ''root'' ''admin'')"
    by (simp add: sample_user_def blocked_def)
  with claim blocked_admin_store_root blocked_admin_store_boss
  have "\<exists>b. unblockUser blocked_admin_store (Some ''root'') ''boss'' = ((400, b), blocked_admin_store)"
    by blast
  then show False
    by (simp add: unblock_blocked_admin)
qed

text \<open>The route that edits a user has no guard for admin targets.\<close>

lemma updateUser_demotes_admin:
  "updateUser sample_trim (\<lambda>m. True) (\<lambda>m. m) sample_store (Some ''root'') ''boss''
     \<lparr>upd_full_name = None, upd_email = None, upd_role = Some ''customer'',
      upd_is_verified = None, upd_address = None\<rparr> =
   ((200, UserSummary ''User updated successfully'' (sample_user ''boss'' ''customer'')),
    sample_store\<lparr>users :=
      [sample_user ''alice'' ''customer'', sample_user ''bob'' ''customer'',
       sample_user ''root'' ''admin'', sample_user ''boss'' ''customer'']\<rparr>)"
  unfolding updateUser_def sample_root
  by (simp add: update_field_errors_def sanitize_update_def sample_store_boss falsy_def Let_def
      User_save_def) (simp add: sample_user_def sample_store_def)

section \<open>Blocked users and the guards\<close>

lemma isAuthenticated_blocked:
  assumes "User_findById st uid = Some u" and "is_blocked u"
  shows "isAuthenticated st (Some uid) =
           (Inl (403, BlockedAccount ''Your account has been blocked. Please contact support.''
                   (blocked_reason u)), None)"
  using assms by (simp add: isAuthenticated_def)

text \<open>
  C5 does not hold of the role guards: a blocked customer passes \<open>userOnly\<close> and reads
  an order, a blocked admin passes \<open>adminOnly\<close>; neither guard reads the block flag.
  The same customer is denied by \<open>isAuthenticated\<close> with the stored reason, and the
  session is emptied.
\<close>

theorem blocked_user_passes_role_guards:
  "is_blocked (blocked (sample_user ''bob'' ''customer'')) \<and>
   userOnly blocked_customer_store (Some ''bob'') = Inr (blocked (sample_user ''bob'' ''customer'')) \<and>
   getOrder blocked_customer_store (Some ''bob'') ''o2'' =
     (200, OrderDocument (sample_order ''o2'' ''bob'' ''delivered'')) \<and>
   adminOnly blocked_admin_store (Some ''boss'') = Inr (blocked (sample_user ''boss'' ''admin'')) \<and>
   isAuthenticated blocked_customer_store (Some ''bob'') =
     (Inl (403, BlockedAccount ''Your account has been blocked. Please contact support.''
             (Some ''Repeated chargebacks'')), None)"
proof -
  have b: "is_blocked (blocked (sample_user ''bob'' ''customer''))"
    by (simp add: blocked_def)
  have g: "userOnly blocked_customer_store (Some ''bob'') =
      Inr (blocked (sample_user ''bob'' ''customer''))"
    by (simp add: userOnly_def User_findById_def blocked_customer_store_def sample_user_def
        blocked_def)
  have o: "getOrder blocked_customer_store (Some ''bob'') ''o2'' =
     (200, OrderDocument (sample_order ''o2'' ''bob'' ''delivered''))"
    unfolding getOrder_def g
    by (simp add: Order_findOne_def blocked_customer_store_def sample_store_def sample_order_def
        sample_user_def blocked_def)
  have a: "adminOnly blocked_admin_store (Some ''boss'') =
      Inr (blocked (sample_user ''boss'' ''admin''))"
    by (simp add: adminOnly_def User_findById_def blocked_admin_store_def sample_user_def
        blocked_def)
  have f: "User_findById blocked_customer_store ''bob'' =
      Some (blocked (sample_user ''bob'' ''customer''))"
    by (simp add: User_findById_def blocked_customer_store_def sample_user_def blocked_def)
  have r: "blocked_reason (blocked (sample_user ''bob'' ''customer'')) = Some ''Repeated chargebacks''"
    by (simp add: blocked_def)
  from isAuthenticated_blocked [OF f b] r
  have i: "isAuthenticated blocked_customer_store (Some ''bob'') =
     (Inl (403, BlockedAccount ''Your account has been blocked. Please contact support.''
             (Some ''Repeated chargebacks'')), None)"
    by simp
  from b g o a i show ?thesis by blast
qed

section \<open>Cart hydration\<close>

lemma match_hex_iff: "match_hex n s \<longleftrightarrow> length s = n \<and> list_all hex_digit s"
  by (induction n arbitrary: s) (auto split: list.splits)

lemma isValidObjectId_shaped: "isValidObjectId v \<longleftrightarrow> objectid_shaped v"
  by (auto simp: isValidObjectId_def objectid_shaped_def truthy_def match_hex_iff
           split: option.splits json.splits)

lemma stale_item_iff: "stale_item isNaN item = Some False \<longleftrightarrow> well_identified isNaN item"
  by (auto simp: stale_item_def well_identified_def product_id_of_def missing_id_def numeric_id_def
        isValidObjectId_shaped Let_def)

lemma hasStaleData_iff:
  "hasStaleData isNaN xs = Some False \<longleftrightarrow> (\<forall>item\<in>set xs. well_identified isNaN item)"
proof (induction xs)
  case Nil
  show ?case by simp
next
  case (Cons x xs)
  show ?case
  proof (cases "stale_item isNaN x")
    case None
    then have "\<not> well_identified isNaN x"
      using stale_item_iff [of isNaN x] by simp
    with None show ?thesis by simp
  next
    case (Some b)
    with Cons stale_item_iff [of isNaN x] show ?thesis
      by (cases b) auto
  qed
qed

text \<open>
  C9: when a non-empty cart entry is stored, the initial cart is the whole parsed list
  and the entry is kept if the text parses to an array all of whose items have a product
  id that is present, not numeric and shaped like an ObjectId; if a single item fails
  that, the initial cart is empty and the entry is removed, the good items with the bad
  one; and the same happens when the text does not parse to an array at all.
\<close>

theorem cart_hydration_all_or_nothing:
  assumes "savedCart = Some s" and "s \<noteq> []"
  shows "(\<forall>parsed. parse s = Some (JArr parsed) \<and> (\<forall>item\<in>set parsed. well_identified isNaN item) \<longrightarrow>
            initialCart parse isNaN savedCart = (parsed, savedCart)) \<and>
         (\<forall>parsed. parse s = Some (JArr parsed) \<and> (\<exists>item\<in>set parsed. \<not> well_identified isNaN item) \<longrightarrow>
            initialCart parse isNaN savedCart = ([], None)) \<and>
         ((\<forall>parsed. parse s \<noteq> Some (JArr parsed)) \<longrightarrow>
            initialCart parse isNaN savedCart = ([], None))"
proof -
  have good: "\<forall>parsed. parse s = Some (JArr parsed) \<and> (\<forall>item\<in>set parsed. well_identified isNaN item) \<longrightarrow>
            initialCart parse isNaN savedCart = (parsed, savedCart)"
    using assms by (auto simp: initialCart_def hasStaleData_iff [symmetric])
  have bad: "\<forall>parsed. parse s = Some (JArr parsed) \<and> (\<exists>item\<in>set parsed. \<not> well_identified isNaN item) \<longrightarrow>
            initialCart parse isNaN savedCart = ([], None)"
  proof (intro allI impI)
    fix parsed
    assume h: "parse s = Some (JArr parsed) \<and> (\<exists>item\<in>set parsed. \<not> well_identified isNaN item)"
    then have "hasStaleData isNaN parsed \<noteq> Some False"
      by (simp add: hasStaleData_iff)
    with h assms show "initialCart parse isNaN savedCart = ([], None)"
      by (auto simp: initialCart_def split: option.splits bool.splits)
  qed
  have other: "(\<forall>parsed. parse s \<noteq> Some (JArr parsed)) \<longrightarrow>
            initialCart parse isNaN savedCart = ([], None)"
    using assms by (auto simp: initialCart_def split: option.splits json.splits)
  from good bad other show ?thesis by blast
qed


lemma sample_item_well_identified:
  "well_identified sample_isNaN (JObj [(''_id'', JStr sample_product_id)])"
proof -
  have p: "product_id_of (JObj [(''_id'', JStr sample_product_id)]) = Some (JStr sample_product_id)"
    by (simp add: product_id_of_def js_or_def property_def truthy_def sample_product_id_def)
  have h: "objectid_shaped (Some (JStr sample_product_id))"
    using sample_product_id_valid
    by (simp add: isValidObjectId_shaped [symmetric] isValidObjectId_def truthy_def
        sample_product_id_def)
  have n: "\<not> numeric_id sample_isNaN (Some (JStr sample_product_id))"
    by (simp add: numeric_id_def typeof_number_def sample_isNaN_def sample_product_id_def
        is_digit_def)
  have m: "\<not> missing_id (Some (JStr sample_product_id))"
    by (simp add: missing_id_def truthy_def sample_product_id_def)
  from p h n m show ?thesis by (simp add: well_identified_def)
qed

lemma numeric_item_stale: "\<not> well_identified sample_isNaN (JObj [(''id'', JNum 7)])"
  by (simp add: well_identified_def product_id_of_def js_or_def property_def truthy_def
      numeric_id_def typeof_number_def)

lemma saved_texts: "sample_saved \<noteq> [] \<and> stale_saved \<noteq> [] \<and> sample_saved \<noteq> stale_saved"
  by (simp add: sample_saved_def stale_saved_def quoted_def sample_product_id_def)

theorem cart_hydration_all_or_nothing_witness:
  "sample_saved \<noteq> [] \<and> stale_saved \<noteq> [] \<and>
   initialCart sample_parse sample_isNaN (Some sample_saved) =
     ([JObj [(''_id'', JStr sample_product_id)]], Some sample_saved) \<and>
   initialCart sample_parse sample_isNaN (Some stale_saved) = ([], None) \<and>
   initialCart sample_parse sample_isNaN (Some ''{oops'') = ([], None)"
proof -
  have p1: "sample_parse sample_saved = Some (JArr [JObj [(''_id'', JStr sample_product_id)]])"
    by (simp add: sample_parse_def)
  have p2: "sample_parse stale_saved =
      Some (JArr [JObj [(''_id'', JStr sample_product_id)], JObj [(''id'', JNum 7)]])"
    using saved_texts by (auto simp: sample_parse_def)
  have p3: "\<forall>parsed. sample_parse ''{oops'' \<noteq> Some (JArr parsed)"
    by (simp add: sample_parse_def sample_saved_def stale_saved_def)
  have s1: "sample_saved \<noteq> []" and s2: "stale_saved \<noteq> []" and s3: "''{oops'' \<noteq> []"
    using saved_texts by simp_all
  have a: "initialCart sample_parse sample_isNaN (Some sample_saved) =
     ([JObj [(''_id'', JStr sample_product_id)]], Some sample_saved)"
    using cart_hydration_all_or_nothing [OF refl s1, of sample_parse sample_isNaN]
      p1 sample_item_well_identified by simp
  have b: "initialCart sample_parse sample_isNaN (Some stale_saved) = ([], None)"
    using cart_hydration_all_or_nothing [OF refl s2, of sample_parse sample_isNaN]
      p2 numeric_item_stale by simp
  have c: "initialCart sample_parse sample_isNaN (Some ''{oops'') = ([], None)"
    using cart_hydration_all_or_nothing [OF refl s3, of sample_parse sample_isNaN] p3 by blast
  from s1 s2 a b c show ?thesis by blast
qed

section \<open>Cart quantities\<close>

lemma whole_positive_at_least_one:
  fixes q :: rat
  assumes "q \<in> \<int>" and "0 < q"
  shows "1 \<le> q"
proof -
  from assms(1) obtain z where q: "q = of_int z"
    by (rule Ints_cases)
  with assms(2) have "0 < z" by simp
  then have "1 \<le> z" by simp
  with q show ?thesis by simp
qed

lemma updateQuantity_nth:
  assumes "k < length c"
  shows "updateQuantity i sz cr delta c ! k =
           (if same_line (c ! k) i sz cr \<and> 0 < quantity (c ! k) + delta
            then (c ! k)\<lparr>quantity := quantity (c ! k) + delta\<rparr> else c ! k)"
  using assms by (simp add: updateQuantity_def Let_def)

text \<open>
  Both invariants are instances of one fact: an operation keeps a property of the
  quantities that holds of 1 and of every new quantity the operation can store.
\<close>

lemma addToCart_keeps:
  assumes "\<forall>item\<in>set c. P (quantity item)" and "P 1" and "\<And>q. P q \<Longrightarrow> P (q + 1)"
  shows "\<forall>item\<in>set (addToCart product c). P (quantity item)"
proof -
  let ?m = "\<lambda>item. same_line item (item_id product) (selectedSize product) (selectedCrust product)"
  let ?f = "\<lambda>item. if ?m item then item\<lparr>quantity := quantity item + 1\<rparr> else item"
  have step: "\<And>item. P (quantity item) \<Longrightarrow> P (quantity (?f item))"
    using assms(3) by simp
  have a: "\<forall>item\<in>set (map ?f c). P (quantity item)"
    using assms(1) step by (simp only: set_map ball_simps) blast
  have b: "\<forall>item\<in>set (c @ [product\<lparr>quantity := 1\<rparr>]). P (quantity item)"
    using assms(1,2) by simp
  show ?thesis
  proof (cases "isValidCartItem product")
    case False
    with assms(1) show ?thesis by (simp add: addToCart_def)
  next
    case True
    show ?thesis
    proof (cases "find ?m c")
      case None
      with True b show ?thesis by (simp only: addToCart_def) simp
    next
      case (Some existing)
      with True a show ?thesis by (simp only: addToCart_def) simp
    qed
  qed
qed

lemma updateQuantity_keeps:
  assumes "\<forall>item\<in>set c. P (quantity item)" and "\<And>q. P q \<Longrightarrow> 0 < q + delta \<Longrightarrow> P (q + delta)"
  shows "\<forall>item\<in>set (updateQuantity i sz cr delta c). P (quantity item)"
proof -
  let ?f = "\<lambda>item. if same_line item i sz cr
                   then (let newQuantity = quantity item + delta
                         in if newQuantity > 0 then item\<lparr>quantity := newQuantity\<rparr> else item)
                   else item"
  have step: "\<And>item. P (quantity item) \<Longrightarrow> P (quantity (?f item))"
    using assms(2) by (simp add: Let_def)
  have "\<forall>item\<in>set (map ?f c). P (quantity item)"
    using assms(1) step by (simp only: set_map ball_simps) blast
  then show ?thesis by (simp only: updateQuantity_def)
qed

text \<open>
  C10, as amended: every cart operation keeps all quantities positive once they all
  are, and keeps all quantities whole numbers of at least one once they all are and the
  delta is a whole number. Adding a valid product appends it with quantity one when no
  line matches, and otherwise adds one to the matching lines. Updating a quantity keeps
  every item in its place: a matching item takes the new quantity when that is greater
  than zero, and is left as it was when the new quantity would be zero or less.
\<close>

theorem cart_quantities_stay_positive:
  "((\<forall>item\<in>set c. 0 < quantity item) \<longrightarrow>
      (\<forall>item\<in>set (addToCart product c). 0 < quantity item) \<and>
      (\<forall>item\<in>set (removeFromCart i sz cr c). 0 < quantity item) \<and>
      (\<forall>item\<in>set (updateQuantity i sz cr delta c). 0 < quantity item) \<and>
      (\<forall>item\<in>set (validItems c). 0 < quantity item)) \<and>
   ((\<forall>item\<in>set c. quantity item \<in> \<int> \<and> 1 \<le> quantity item) \<and> delta \<in> \<int> \<longrightarrow>
      (\<forall>item\<in>set (addToCart product c). quantity item \<in> \<int> \<and> 1 \<le> quantity item) \<and>
      (\<forall>item\<in>set (removeFromCart i sz cr c). quantity item \<in> \<int> \<and> 1 \<le> quantity item) \<and>
      (\<forall>item\<in>set (updateQuantity i sz cr delta c). quantity item \<in> \<int> \<and> 1 \<le> quantity item) \<and>
      (\<forall>item\<in>set (validItems c). quantity item \<in> \<int> \<and> 1 \<le> quantity item)) \<and>
   (isValidCartItem product \<and>
    (\<forall>item\<in>set c. \<not> same_line item (item_id product) (selectedSize product) (selectedCrust product)) \<longrightarrow>
      addToCart product c = c @ [product\<lparr>quantity := 1\<rparr>]) \<and>
   (isValidCartItem product \<and>
    (\<exists>item\<in>set c. same_line item (item_id product) (selectedSize product) (selectedCrust product)) \<longrightarrow>
      addToCart product c =
        map (\<lambda>item. if same_line item (item_id product) (selectedSize product) (selectedCrust product)
                    then item\<lparr>quantity := quantity item + 1\<rparr> else item) c) \<and>
   length (updateQuantity i sz cr delta c) = length c \<and>
   (\<forall>k<length c.
      updateQuantity i sz cr delta c ! k =
        (if same_line (c ! k) i sz cr \<and> 0 < quantity (c ! k) + delta
         then (c ! k)\<lparr>quantity := quantity (c ! k) + delta\<rparr> else c ! k))"
proof -
  have pos: "(\<forall>item\<in>set c. 0 < quantity item) \<longrightarrow>
      (\<forall>item\<in>set (addToCart product c). 0 < quantity item) \<and>
      (\<forall>item\<in>set (removeFromCart i sz cr c). 0 < quantity item) \<and>
      (\<forall>item\<in>set (updateQuantity i sz cr delta c). 0 < quantity item) \<and>
      (\<forall>item\<in>set (validItems c). 0 < quantity item)"
  proof (intro impI conjI)
    assume q: "\<forall>item\<in>set c. 0 < quantity item"
    from q show "\<forall>item\<in>set (addToCart product c). 0 < quantity item"
      by (rule addToCart_keeps) simp_all
    from q show "\<forall>item\<in>set (removeFromCart i sz cr c). 0 < quantity item"
      by (simp add: removeFromCart_def)
    from q show "\<forall>item\<in>set (updateQuantity i sz cr delta c). 0 < quantity item"
      by (rule updateQuantity_keeps)
    from q show "\<forall>item\<in>set (validItems c). 0 < quantity item"
      by (simp add: validItems_def)
  qed
  have whole: "(\<forall>item\<in>set c. quantity item \<in> \<int> \<and> 1 \<le> quantity item) \<and> delta \<in> \<int> \<longrightarrow>
      (\<forall>item\<in>set (addToCart product c). quantity item \<in> \<int> \<and> 1 \<le> quantity item) \<and>
      (\<forall>item\<in>set (removeFromCart i sz cr c). quantity item \<in> \<int> \<and> 1 \<le> quantity item) \<and>
      (\<forall>item\<in>set (updateQuantity i sz cr delta c). quantity item \<in> \<int> \<and> 1 \<le> quantity item) \<and>
      (\<forall>item\<in>set (validItems c). quantity item \<in> \<int> \<and> 1 \<le> quantity item)"
  proof (intro impI)
    assume h: "(\<forall>item\<in>set c. quantity item \<in> \<int> \<and> 1 \<le> quantity item) \<and> delta \<in> \<int>"
    then have q: "\<forall>item\<in>set c. quantity item \<in> \<int> \<and> 1 \<le> quantity item"
      and d: "delta \<in> \<int>" by simp_all
    have a: "\<forall>item\<in>set (addToCart product c). quantity item \<in> \<int> \<and> 1 \<le> quantity item"
      using q by (rule addToCart_keeps) simp_all
    have r: "\<forall>item\<in>set (removeFromCart i sz cr c). quantity item \<in> \<int> \<and> 1 \<le> quantity item"
      using q by (simp add: removeFromCart_def)
    have u: "\<forall>item\<in>set (updateQuantity i sz cr delta c). quantity item \<in> \<int> \<and> 1 \<le> quantity item"
      using q
    proof (rule updateQuantity_keeps)
      fix x :: rat
      assume "x \<in> \<int> \<and> 1 \<le> x" and p: "0 < x + delta"
      with d have "x + delta \<in> \<int>" by simp
      with p show "x + delta \<in> \<int> \<and> 1 \<le> x + delta"
        by (simp add: whole_positive_at_least_one)
    qed
    have v: "\<forall>item\<in>set (validItems c). quantity item \<in> \<int> \<and> 1 \<le> quantity item"
      using q by (simp add: validItems_def)
    show "(\<forall>item\<in>set (addToCart product c). quantity item \<in> \<int> \<and> 1 \<le> quantity item) \<and>
      (\<forall>item\<in>set (removeFromCart i sz cr c). quantity item \<in> \<int> \<and> 1 \<le> quantity item) \<and>
      (\<forall>item\<in>set (updateQuantity i sz cr delta c). quantity item \<in> \<int> \<and> 1 \<le> quantity item) \<and>
      (\<forall>item\<in>set (validItems c). quantity item \<in> \<int> \<and> 1 \<le> quantity item)"
      by (rule conjI [OF a conjI [OF r conjI [OF u v]]])
  qed
  have fresh: "isValidCartItem product \<and>
    (\<forall>item\<in>set c. \<not> same_line item (item_id product) (selectedSize product) (selectedCrust product)) \<longrightarrow>
      addToCart product c = c @ [product\<lparr>quantity := 1\<rparr>]"
  proof
    assume h: "isValidCartItem product \<and>
      (\<forall>item\<in>set c. \<not> same_line item (item_id product) (selectedSize product) (selectedCrust product))"
    then have "find (\<lambda>item. same_line item (item_id product) (selectedSize product)
                     (selectedCrust product)) c = None"
      by (simp add: find_None_iff_all)
    with h show "addToCart product c = c @ [product\<lparr>quantity := 1\<rparr>]"
      by (simp add: addToCart_def)
  qed
  have again: "isValidCartItem product \<and>
    (\<exists>item\<in>set c. same_line item (item_id product) (selectedSize product) (selectedCrust product)) \<longrightarrow>
      addToCart product c =
        map (\<lambda>item. if same_line item (item_id product) (selectedSize product) (selectedCrust product)
                    then item\<lparr>quantity := quantity item + 1\<rparr> else item) c"
  proof
    assume h: "isValidCartItem product \<and>
      (\<exists>item\<in>set c. same_line item (item_id product) (selectedSize product) (selectedCrust product))"
    then have "find (\<lambda>item. same_line item (item_id product) (selectedSize product)
                     (selectedCrust product)) c \<noteq> None"
      by (simp add: find_None_iff_all)
    then obtain existing where "find (\<lambda>item. same_line item (item_id product)
        (selectedSize product) (selectedCrust product)) c = Some existing"
      by blast
    with h show "addToCart product c =
        map (\<lambda>item. if same_line item (item_id product) (selectedSize product) (selectedCrust product)
                    then item\<lparr>quantity := quantity item + 1\<rparr> else item) c"
      by (simp add: addToCart_def)
  qed
  have len: "length (updateQuantity i sz cr delta c) = length c"
    by (simp add: updateQuantity_def)
  have upd: "\<forall>k<length c.
      updateQuantity i sz cr delta c ! k =
        (if same_line (c ! k) i sz cr \<and> 0 < quantity (c ! k) + delta
         then (c ! k)\<lparr>quantity := quantity (c ! k) + delta\<rparr> else c ! k)"
  proof (intro allI impI)
    fix k
    assume "k < length c"
    then show "updateQuantity i sz cr delta c ! k =
        (if same_line (c ! k) i sz cr \<and> 0 < quantity (c ! k) + delta
         then (c ! k)\<lparr>quantity := quantity (c ! k) + delta\<rparr> else c ! k)"
      by (rule updateQuantity_nth)
  qed
  show ?thesis
    by (rule conjI [OF pos conjI [OF whole conjI [OF fresh conjI [OF again conjI [OF len upd]]]]])
qed

lemma cart_sample_valid: "isValidCartItem cart_sample"
  using sample_product_id_valid
  by (simp add: isValidCartItem_def cart_sample_def sample_item_def product_ref_def
      sample_product_id_def truthy_def isValidObjectId_def)

lemma cart_sample_line:
  "same_line cart_sample (Some sample_product_id) (Some ''Medium'') (Some ''Thin'') \<and>
   quantity cart_sample = 2"
  by (simp add: same_line_def cart_sample_def sample_item_def)

theorem cart_quantities_stay_positive_witness:
  "addToCart cart_sample [] = [cart_sample\<lparr>quantity := 1\<rparr>] \<and>
   addToCart cart_sample [cart_sample] = [cart_sample\<lparr>quantity := 3\<rparr>] \<and>
   length (updateQuantity (Some sample_product_id) (Some ''Medium'') (Some ''Thin'') (- 2)
             [cart_sample]) = 1 \<and>
   updateQuantity (Some sample_product_id) (Some ''Medium'') (Some ''Thin'') (- 2) [cart_sample] ! 0 =
     cart_sample \<and>
   updateQuantity (Some sample_product_id) (Some ''Medium'') (Some ''Thin'') (- 1) [cart_sample] ! 0 =
     cart_sample\<lparr>quantity := 1\<rparr> \<and>
   list_all (\<lambda>item. 0 < quantity item)
     (updateQuantity (Some sample_product_id) (Some ''Medium'') (Some ''Thin'') (- 1 / 2)
        [cart_sample]) \<and>
   list_all (\<lambda>item. quantity item \<in> \<int> \<and> 1 \<le> quantity item)
     (updateQuantity (Some sample_product_id) (Some ''Medium'') (Some ''Thin'') (- 1) [cart_sample])"
proof -
  have m: "same_line cart_sample (item_id cart_sample) (selectedSize cart_sample)
      (selectedCrust cart_sample)"
    by (simp add: same_line_def)
  have a: "addToCart cart_sample [] = [cart_sample\<lparr>quantity := 1\<rparr>]"
    using cart_quantities_stay_positive [where c = "[]" and product = cart_sample]
      cart_sample_valid
    by simp
  have b: "addToCart cart_sample [cart_sample] = [cart_sample\<lparr>quantity := 3\<rparr>]"
    using cart_quantities_stay_positive [where c = "[cart_sample]" and product = cart_sample]
      cart_sample_valid m cart_sample_line
    by simp
  note t = cart_quantities_stay_positive
      [where c = "[cart_sample]" and i = "Some sample_product_id" and sz = "Some ''Medium''"
         and cr = "Some ''Thin''"]
  have l: "length (updateQuantity (Some sample_product_id) (Some ''Medium'') (Some ''Thin'') (- 2)
             [cart_sample]) = 1"
    using t [where delta = "- 2"] by simp
  have z: "updateQuantity (Some sample_product_id) (Some ''Medium'') (Some ''Thin'') (- 2)
      [cart_sample] ! 0 = cart_sample"
    using t [where delta = "- 2"] cart_sample_line by simp
  have o: "updateQuantity (Some sample_product_id) (Some ''Medium'') (Some ''Thin'') (- 1)
      [cart_sample] ! 0 = cart_sample\<lparr>quantity := 1\<rparr>"
    using t [where delta = "- 1"] cart_sample_line by simp
  have p: "list_all (\<lambda>item. 0 < quantity item)
     (updateQuantity (Some sample_product_id) (Some ''Medium'') (Some ''Thin'') (- 1 / 2)
        [cart_sample])"
    using t [where delta = "- 1 / 2"] cart_sample_line by (simp add: list_all_iff)
  have w: "list_all (\<lambda>item. quantity item \<in> \<int> \<and> 1 \<le> quantity item)
     (updateQuantity (Some sample_product_id) (Some ''Medium'') (Some ''Thin'') (- 1) [cart_sample])"
    using t [where delta = "- 1"] cart_sample_line by (simp add: list_all_iff)
  show ?thesis
    by (rule conjI [OF a conjI [OF b conjI [OF l conjI [OF z conjI [OF o conjI [OF p w]]]]]])
qed

lemma zero_item_well_identified:
  "well_identified sample_isNaN
     (JObj [(''_id'', JStr sample_product_id), (''quantity'', JNum 0)])"
proof -
  have p: "product_id_of (JObj [(''_id'', JStr sample_product_id), (''quantity'', JNum 0)]) =
      Some (JStr sample_product_id)"
    by (simp add: product_id_of_def js_or_def property_def truthy_def sample_product_id_def)
  have h: "objectid_shaped (Some (JStr sample_product_id))"
    using sample_product_id_valid
    by (simp add: isValidObjectId_shaped [symmetric] isValidObjectId_def truthy_def
        sample_product_id_def)
  have n: "\<not> numeric_id sample_isNaN (Some (JStr sample_product_id))"
    by (simp add: numeric_id_def typeof_number_def sample_isNaN_def sample_product_id_def
        is_digit_def)
  have m: "\<not> missing_id (Some (JStr sample_product_id))"
    by (simp add: missing_id_def truthy_def sample_product_id_def)
  from p h n m show ?thesis by (simp add: well_identified_def)
qed

text \<open>
  C10 as stated fails twice: a delta of minus one half takes a quantity of one to one
  half, which is positive and so is stored; and the cart read from storage keeps an item
  whose stored quantity is 0, since only product ids are checked there.
\<close>

theorem cart_quantity_counterexample:
  "\<not> (\<forall>c i sz cr delta.
        (\<forall>item\<in>set c. 1 \<le> quantity item) \<longrightarrow>
        (\<forall>item\<in>set (updateQuantity i sz cr delta c). 1 \<le> quantity item)) \<and>
   initialCart zero_parse sample_isNaN (Some zero_saved) =
     ([JObj [(''_id'', JStr sample_product_id), (''quantity'', JNum 0)]], Some zero_saved)"
proof -
  have half: "\<not> (\<forall>c i sz cr delta.
        (\<forall>item\<in>set c. 1 \<le> quantity item) \<longrightarrow>
        (\<forall>item\<in>set (updateQuantity i sz cr delta c). 1 \<le> quantity item))"
  proof
    assume claim: "\<forall>c i sz cr delta.
        (\<forall>item\<in>set c. 1 \<le> quantity item) \<longrightarrow>
        (\<forall>item\<in>set (updateQuantity i sz cr delta c). 1 \<le> quantity item)"
    have u: "updateQuantity (Some sample_product_id) (Some ''Medium'') (Some ''Thin'') (- 1 / 2)
        [cart_sample\<lparr>quantity := 1\<rparr>] = [cart_sample\<lparr>quantity := 1 / 2\<rparr>]"
      using cart_sample_line by (simp add: updateQuantity_def same_line_def Let_def)
    have "\<forall>item\<in>set [cart_sample\<lparr>quantity := 1\<rparr>]. 1 \<le> quantity item"
      by simp
    with claim
    have "\<forall>item\<in>set (updateQuantity (Some sample_product_id) (Some ''Medium'') (Some ''Thin'')
              (- 1 / 2) [cart_sample\<lparr>quantity := 1\<rparr>]). 1 \<le> quantity item"
      by blast
    then show False
      unfolding u by simp
  qed
  have nonempty: "zero_saved \<noteq> []"
    by (simp add: zero_saved_def)
  have stale: "stale_item sample_isNaN
      (JObj [(''_id'', JStr sample_product_id), (''quantity'', JNum 0)]) = Some False"
    by (rule iffD2 [OF stale_item_iff]) (rule zero_item_well_identified)
  have hydrated: "initialCart zero_parse sample_isNaN (Some zero_saved) =
     ([JObj [(''_id'', JStr sample_product_id), (''quantity'', JNum 0)]], Some zero_saved)"
    using nonempty by (simp add: initialCart_def zero_parse_def stale)
  show ?thesis
    by (rule conjI [OF half hydrated])
qed

end
